theory Spec2Isabelle
  imports Complex_Main "HOL-Library.Monad_Syntax" "HOL-Library.Sublist"
begin

section \<open>JavaScript numbers\<close>

text \<open>
  The statistical core of \<^verbatim>\<open>server.js\<close> computes on JavaScript numbers. The model
  takes them as real numbers (the rounding of IEEE doubles is outside the model) and
  writes \<open>None\<close> for a result that is not a number: the \<^verbatim>\<open>NaN\<close> of \<^verbatim>\<open>0/0\<close>, of
  arithmetic on \<^verbatim>\<open>undefined\<close> (a missing property, an array read out of range) and of
  \<^verbatim>\<open>Math.pow\<close> with a negative base and a fractional exponent. Arithmetic,
  \<^verbatim>\<open>Math.min\<close>, \<^verbatim>\<open>Math.max\<close> and \<^verbatim>\<open>toFixed\<close> pass \<^verbatim>\<open>NaN\<close> on, so they are
  written in the option monad; a comparison with \<^verbatim>\<open>NaN\<close> is false.
\<close>

type_synonym number = "real option"

text \<open>
  \<^verbatim>\<open>a / b\<close>. A zero divisor gives \<^verbatim>\<open>NaN\<close> for the dividend 0 and an infinity
  otherwise; the divisions of this program that can have a zero divisor then have a zero
  dividend (section Weighted sums), so \<open>None\<close> is \<^verbatim>\<open>NaN\<close> there.
\<close>

definition ndiv :: "real \<Rightarrow> real \<Rightarrow> number" where
  "ndiv a b = (if b = 0 then None else Some (a / b))"

text \<open>
  \<^verbatim>\<open>a < b\<close> and \<^verbatim>\<open>a <= b\<close>; \<^verbatim>\<open>a > b\<close> is \<open>nless b a\<close> and
  \<^verbatim>\<open>a >= b\<close> is \<open>nleq b a\<close>.
\<close>

definition nless :: "number \<Rightarrow> number \<Rightarrow> bool" where
  "nless a b = (case a of None \<Rightarrow> False | Some x \<Rightarrow> (case b of None \<Rightarrow> False | Some y \<Rightarrow> x < y))"

definition nleq :: "number \<Rightarrow> number \<Rightarrow> bool" where
  "nleq a b = (case a of None \<Rightarrow> False | Some x \<Rightarrow> (case b of None \<Rightarrow> False | Some y \<Rightarrow> x \<le> y))"

text \<open>
  \<^verbatim>\<open>parseFloat(x.toFixed(d))\<close>: \<^verbatim>\<open>toFixed\<close> takes the integer \<open>n\<close> with
  \<open>n / 10^d\<close> nearest to \<open>|x|\<close>, the larger one on a tie, and restores the sign.
\<close>

definition toFixed :: "nat \<Rightarrow> real \<Rightarrow> real" where
  "toFixed d x =
     (if x < 0 then - (of_int \<lfloor>(- x) * 10 ^ d + 1 / 2\<rfloor> / 10 ^ d)
      else of_int \<lfloor>x * 10 ^ d + 1 / 2\<rfloor> / 10 ^ d)"

definition ntoFixed :: "nat \<Rightarrow> number \<Rightarrow> number" where
  "ntoFixed d x = map_option (toFixed d) x"


section \<open>Descriptive statistics\<close>

text \<open>\<^verbatim>\<open>sorted[i]\<close>: \<^verbatim>\<open>undefined\<close> outside the array.\<close>

definition nth_num :: "real list \<Rightarrow> int \<Rightarrow> number" where
  "nth_num xs i = (if 0 \<le> i \<and> i < int (length xs) then Some (xs ! nat i) else None)"

text \<open>\<^verbatim>\<open>calculatePercentile(arr, percentile)\<close>, lines 255-264.\<close>

definition calculatePercentile :: "real list \<Rightarrow> real \<Rightarrow> number" where
  "calculatePercentile arr percentile =
     (if length arr = 0 then Some 0
      else
        let sorted = sort arr;
            index = (percentile / 100) * (real (length sorted) - 1);
            lower = \<lfloor>index\<rfloor>;
            upper = \<lceil>index\<rceil>;
            weight = index - of_int lower
        in do {
             a \<leftarrow> nth_num sorted lower;
             b \<leftarrow> nth_num sorted upper;
             Some (a * (1 - weight) + b * weight)
           })"

text \<open>\<^verbatim>\<open>calculateStdDev(arr, mean)\<close>, lines 267-272: the population deviation.\<close>

definition calculateStdDev :: "real list \<Rightarrow> real \<Rightarrow> real" where
  "calculateStdDev arr mean =
     (if length arr = 0 then 0
      else
        let squareDiffs = map (\<lambda>v. (v - mean) ^ 2) arr;
            avgSquareDiff = sum_list squareDiffs / real (length arr)
        in sqrt avgSquareDiff)"

text \<open>
  \<^verbatim>\<open>filterOutliers(values)\<close>, lines 276-297. \<open>iqrFiltered\<close> is its local
  \<^verbatim>\<open>filtered\<close>: the values inside \<open>[Q1 - 2 IQR, Q3 + 2 IQR]\<close> (lines 280-289).
\<close>

definition iqrFiltered :: "real list \<Rightarrow> real list" where
  "iqrFiltered values =
     (let q1 = calculatePercentile values 25;
          q3 = calculatePercentile values 75;
          iqr = do { a \<leftarrow> q3; b \<leftarrow> q1; Some (a - b) };
          lowerBound = do { a \<leftarrow> q1; i \<leftarrow> iqr; Some (a - 2.0 * i) };
          upperBound = do { a \<leftarrow> q3; i \<leftarrow> iqr; Some (a + 2.0 * i) }
      in filter (\<lambda>v. nleq lowerBound (Some v) \<and> nleq (Some v) upperBound) values)"

definition filterOutliers :: "real list \<Rightarrow> real list" where
  "filterOutliers values =
     (if length values < 4 then values
      else
        let filtered = iqrFiltered values
        in if real (length filtered) < real (length values) * 0.9 then values
           else filtered)"

record ConfidenceInterval =
  lower :: real
  upper :: real
  margin :: real

text \<open>\<^verbatim>\<open>calculateConfidenceInterval(mean, stdDev, n)\<close>, lines 345-355.\<close>

definition calculateConfidenceInterval :: "real \<Rightarrow> real \<Rightarrow> nat \<Rightarrow> ConfidenceInterval" where
  "calculateConfidenceInterval mean stdDev n =
     (if n = 0 then \<lparr>lower = 0, upper = 0, margin = 0\<rparr>
      else
        let zScore = 1.96;
            marginError = zScore * (stdDev / sqrt (real n))
        in \<lparr>lower = mean - marginError, upper = mean + marginError, margin = marginError\<rparr>)"

text \<open>\<^verbatim>\<open>calculateRealProbability(values, threshold, isAbove)\<close>, lines 358-365.\<close>

definition calculateRealProbability :: "real list \<Rightarrow> number \<Rightarrow> bool \<Rightarrow> real" where
  "calculateRealProbability values threshold isAbove =
     (if length values = 0 then 0
      else
        let count = length (filter (\<lambda>v. if isAbove then nless threshold (Some v) else nless (Some v) threshold) values)
        in (real count / real (length values)) * 100)"

record Percentiles =
  p10 :: number
  p25 :: number
  p50 :: number
  p75 :: number
  p90 :: number

record Statistics =
  mean :: number
  median :: number
  stdDev :: number
  minimum :: number
  maximum :: number
  count :: nat
  percentiles :: Percentiles
  confidenceInterval95 :: ConfidenceInterval

text \<open>
  An exception of the JavaScript run time. \<^verbatim>\<open>calculateStatistics\<close> assigns to its
  \<^verbatim>\<open>const dataToAnalyze\<close> when the data to analyse is empty, which throws a
  \<^verbatim>\<open>TypeError\<close>.
\<close>

datatype error = TypeError

text \<open>\<^verbatim>\<open>Math.min(...xs)\<close> and \<^verbatim>\<open>Math.max(...xs)\<close>; infinite on no argument.\<close>

definition Math_min_list :: "real list \<Rightarrow> number" where
  "Math_min_list xs = (case xs of [] \<Rightarrow> None | x # ys \<Rightarrow> Some (fold min ys x))"

definition Math_max_list :: "real list \<Rightarrow> number" where
  "Math_max_list xs = (case xs of [] \<Rightarrow> None | x # ys \<Rightarrow> Some (fold max ys x))"

text \<open>\<^verbatim>\<open>calculateStatistics(values, removeOutliers)\<close>, lines 368-414.\<close>

definition calculateStatistics :: "real list \<Rightarrow> bool \<Rightarrow> error + Statistics" where
  "calculateStatistics values removeOutliers =
     (if length values = 0 then
        Inr \<lparr>mean = Some 0, median = Some 0, stdDev = Some 0, minimum = Some 0, maximum = Some 0,
             count = 0,
             percentiles = \<lparr>p10 = Some 0, p25 = Some 0, p50 = Some 0, p75 = Some 0, p90 = Some 0\<rparr>,
             confidenceInterval95 = \<lparr>lower = 0, upper = 0, margin = 0\<rparr>\<rparr>
      else
        let dataToAnalyze = (if removeOutliers then filterOutliers values else values)
        in if length dataToAnalyze = 0 then Inl TypeError
           else
             let mean = sum_list dataToAnalyze / real (length dataToAnalyze);
                 stdDev = calculateStdDev dataToAnalyze mean;
                 ci95 = calculateConfidenceInterval mean stdDev (length dataToAnalyze)
             in Inr \<lparr>mean = Some (toFixed 2 mean),
                     median = ntoFixed 2 (calculatePercentile dataToAnalyze 50),
                     stdDev = Some (toFixed 2 stdDev),
                     minimum = ntoFixed 2 (Math_min_list dataToAnalyze),
                     maximum = ntoFixed 2 (Math_max_list dataToAnalyze),
                     count = length dataToAnalyze,
                     percentiles =
                       \<lparr>p10 = ntoFixed 2 (calculatePercentile dataToAnalyze 10),
                        p25 = ntoFixed 2 (calculatePercentile dataToAnalyze 25),
                        p50 = ntoFixed 2 (calculatePercentile dataToAnalyze 50),
                        p75 = ntoFixed 2 (calculatePercentile dataToAnalyze 75),
                        p90 = ntoFixed 2 (calculatePercentile dataToAnalyze 90)\<rparr>,
                     confidenceInterval95 =
                       \<lparr>lower = toFixed 2 (lower ci95),
                        upper = toFixed 2 (upper ci95),
                        margin = toFixed 2 (margin ci95)\<rparr>\<rparr>)"

text \<open>
  The exceptions of a sequence of calls: the first one thrown ends the sequence.
\<close>

definition bindE :: "error + 'a \<Rightarrow> ('a \<Rightarrow> error + 'b) \<Rightarrow> error + 'b" where
  "bindE r f = (case r of Inl e \<Rightarrow> Inl e | Inr v \<Rightarrow> f v)"

section \<open>Seasonal factors\<close>

text \<open>
  \<^verbatim>\<open>getSeasonalAdjustments(month)\<close>, lines 191-216. The season's display name is
  left out.
\<close>

record SeasonalFactor =
  temp :: real
  precip :: real
  humidity :: real

definition getSeasonalAdjustments :: "int \<Rightarrow> SeasonalFactor" where
  "getSeasonalAdjustments month =
     (if month = 1 then \<lparr>temp = 0.2, precip = 1.5, humidity = 1.2\<rparr>
      else if month = 2 then \<lparr>temp = 0.1, precip = 1.4, humidity = 1.2\<rparr>
      else if month = 3 then \<lparr>temp = - 0.3, precip = 1.0, humidity = 1.0\<rparr>
      else if month = 4 then \<lparr>temp = - 0.8, precip = 0.5, humidity = 0.9\<rparr>
      else if month = 5 then \<lparr>temp = - 1.2, precip = 0.2, humidity = 0.8\<rparr>
      else if month = 6 then \<lparr>temp = - 1.5, precip = 0.1, humidity = 0.7\<rparr>
      else if month = 7 then \<lparr>temp = - 1.6, precip = 0.1, humidity = 0.7\<rparr>
      else if month = 8 then \<lparr>temp = - 1.3, precip = 0.1, humidity = 0.7\<rparr>
      else if month = 9 then \<lparr>temp = - 0.4, precip = 0.4, humidity = 0.8\<rparr>
      else if month = 10 then \<lparr>temp = - 3.5, precip = 0.8, humidity = 0.9\<rparr>
      else if month = 11 then \<lparr>temp = 0.5, precip = 1.2, humidity = 1.1\<rparr>
      else if month = 12 then \<lparr>temp = 0.3, precip = 1.4, humidity = 1.2\<rparr>
      else \<lparr>temp = 0, precip = 1.0, humidity = 1.0\<rparr>)"

section \<open>Trend estimator\<close>

text \<open>An observation \<^verbatim>\<open>{ year, value }\<close> of one calendar day.\<close>

record ObservationPoint =
  year :: int
  val :: real

text \<open>
  The object \<^verbatim>\<open>calculateTrend\<close> returns; \<open>regressionMethod\<close> is its property
  \<^verbatim>\<open>method\<close>. With fewer than ten points it has no
  \<^verbatim>\<open>intercept\<close> and no \<^verbatim>\<open>rSquared\<close> property: reading them gives
  \<^verbatim>\<open>undefined\<close>, which is \<^verbatim>\<open>NaN\<close> in arithmetic and false in comparisons, so
  they are \<open>None\<close> here.
\<close>

record TrendModel =
  slope :: number
  intercept :: number
  rSquared :: number
  confidence :: string
  regressionMethod :: string

text \<open>
  \<^verbatim>\<open>calculateTrend(dataWithYear, currentYear)\<close>, lines 510-546. Each
  \<^verbatim>\<open>reduce((sum, d) => sum + f(d), 0)\<close> is a \<open>sum_list\<close>.
\<close>

definition calculateTrend :: "ObservationPoint list \<Rightarrow> int \<Rightarrow> TrendModel" where
  "calculateTrend dataWithYear currentYear =
     (if length dataWithYear < 10 then
        \<lparr>slope = Some 0, intercept = None, rSquared = None,
         confidence = ''low'', regressionMethod = ''insufficient_data''\<rparr>
      else
        let weight = (\<lambda>d. exp (- (real_of_int currentYear - real_of_int (year d)) / 5));
            sumWeights = (\<Sum>d\<leftarrow>dataWithYear. weight d);
            sumWX = (\<Sum>d\<leftarrow>dataWithYear. weight d * real_of_int (year d));
            sumWY = (\<Sum>d\<leftarrow>dataWithYear. weight d * val d);
            sumWXY = (\<Sum>d\<leftarrow>dataWithYear. weight d * real_of_int (year d) * val d);
            sumWXX = (\<Sum>d\<leftarrow>dataWithYear. weight d * real_of_int (year d) * real_of_int (year d));
            slope = do {
              a \<leftarrow> ndiv (sumWX * sumWY) sumWeights;
              b \<leftarrow> ndiv (sumWX * sumWX) sumWeights;
              ndiv (sumWXY - a) (sumWXX - b)
            };
            intercept = do { s \<leftarrow> slope; ndiv (sumWY - s * sumWX) sumWeights };
            yMeanWeighted = ndiv sumWY sumWeights;
            ssTotalWeighted = do {
              m \<leftarrow> yMeanWeighted;
              Some (\<Sum>d\<leftarrow>dataWithYear. weight d * (val d - m) ^ 2)
            };
            ssResidualWeighted = do {
              s \<leftarrow> slope;
              i \<leftarrow> intercept;
              Some (\<Sum>d\<leftarrow>dataWithYear. weight d * (val d - (s * real_of_int (year d) + i)) ^ 2)
            };
            rSquared = do {
              r \<leftarrow> ssResidualWeighted;
              t \<leftarrow> ssTotalWeighted;
              q \<leftarrow> ndiv r t;
              Some (1 - q)
            }
        in \<lparr>slope = ntoFixed 4 slope,
            intercept = ntoFixed 2 intercept,
            rSquared = ntoFixed 3 rSquared,
            confidence = (if nless (Some 0.5) rSquared then ''high''
                          else if nless (Some 0.2) rSquared then ''medium'' else ''low''),
            regressionMethod = ''weighted_regression''\<rparr>)"

section \<open>Calibration\<close>

record CalibrationEntry =
  lat :: real
  lon :: real
  month :: int
  tempMax :: real
  tempMin :: real
  radius :: real

text \<open>\<^verbatim>\<open>calibrationDatabase\<close>, lines 606-617, in the order \<^verbatim>\<open>Object.entries\<close> lists it.\<close>

definition calibrationDatabase :: "(string \<times> CalibrationEntry) list" where
  "calibrationDatabase =
     [(''cochabamba_oct'',
         \<lparr>lat = - 17.39, lon = - 66.16, month = 10, tempMax = 26.0, tempMin = 12.0, radius = 0.5\<rparr>),
      (''cochabamba_nov'',
         \<lparr>lat = - 17.39, lon = - 66.16, month = 11, tempMax = 24.5, tempMin = 11.0, radius = 0.5\<rparr>),
      (''cochabamba_dic'',
         \<lparr>lat = - 17.39, lon = - 66.16, month = 12, tempMax = 26.0, tempMin = 13.0, radius = 0.5\<rparr>),
      (''lapaz_oct'',
         \<lparr>lat = - 16.50, lon = - 68.15, month = 10, tempMax = 16.5, tempMin = 3.0, radius = 0.3\<rparr>),
      (''santacruz_oct'',
         \<lparr>lat = - 17.78, lon = - 63.18, month = 10, tempMax = 29.0, tempMin = 19.0, radius = 0.4\<rparr>)]"

text \<open>
  \<^verbatim>\<open>findCalibration(lat, lon, month)\<close>, lines 620-635: the first entry, in the order of
  the table, whose centre is within its radius of the point and whose month is the
  request's. \<open>currentLat\<close> and \<open>currentLon\<close> are what \<^verbatim>\<open>parseFloat\<close> gave, \<open>None\<close>
  for the \<^verbatim>\<open>NaN\<close> of an absent or unreadable coordinate; \<^verbatim>\<open>Math.pow(x, 2)\<close> is the
  square.
\<close>

definition distanceTo :: "CalibrationEntry \<Rightarrow> number \<Rightarrow> number \<Rightarrow> number" where
  "distanceTo cal currentLat currentLon =
     do {
       la \<leftarrow> currentLat;
       lo \<leftarrow> currentLon;
       Some (sqrt ((la - lat cal) ^ 2 + (lo - lon cal) ^ 2))
     }"

fun findCalibrationIn ::
  "(string \<times> CalibrationEntry) list \<Rightarrow> number \<Rightarrow> number \<Rightarrow> int \<Rightarrow> CalibrationEntry option" where
  "findCalibrationIn [] currentLat currentLon m = None"
| "findCalibrationIn ((key, cal) # rest) currentLat currentLon m =
     (if nleq (distanceTo cal currentLat currentLon) (Some (radius cal)) \<and> m = month cal
      then Some cal
      else findCalibrationIn rest currentLat currentLon m)"

definition findCalibration :: "number \<Rightarrow> number \<Rightarrow> int \<Rightarrow> CalibrationEntry option" where
  "findCalibration currentLat currentLon m = findCalibrationIn calibrationDatabase currentLat currentLon m"

section \<open>Prediction, thresholds, probabilities and risk scores\<close>

text \<open>
  The seven series \<^verbatim>\<open>getDailyValuesWithYear\<close> extracts for the target day, one per
  parameter of the provider, sorted by year (lines 495-506).
\<close>

record DailySeries =
  T2M_MAX :: "ObservationPoint list"
  T2M_MIN :: "ObservationPoint list"
  T2M :: "ObservationPoint list"
  WS2M_MAX :: "ObservationPoint list"
  WS2M :: "ObservationPoint list"
  RH2M :: "ObservationPoint list"
  PRECTOTCORR :: "ObservationPoint list"

text \<open>
  The weighted moving average of lines 583-602, written once for the two copies
  (\<^verbatim>\<open>weightedAvgMax\<close>, \<^verbatim>\<open>weightedAvgMin\<close>); \<^verbatim>\<open>0/0\<close> on an empty series.
\<close>

definition weightedAvg :: "ObservationPoint list \<Rightarrow> real \<Rightarrow> number" where
  "weightedAvg series currentYearFloat =
     (let weight = (\<lambda>d. exp (- (currentYearFloat - real_of_int (year d)) / 3));
          sumWeights = (\<Sum>d\<leftarrow>series. weight d)
      in ndiv (\<Sum>d\<leftarrow>series. val d * weight d) sumWeights)"

text \<open>
  The hybrid model of lines 648-662 for one of the two temperatures: the trend line at
  the current year, the 60th percentile of the recent years, the blend and the seasonal
  offset.
\<close>

definition hybridPrediction ::
  "ObservationPoint list \<Rightarrow> TrendModel \<Rightarrow> Statistics \<Rightarrow> number \<Rightarrow> int \<Rightarrow> SeasonalFactor \<Rightarrow> number" where
  "hybridPrediction series trend stats weightedAverage currentYear seasonalAdj =
     (let trendValue = do {
            s \<leftarrow> slope trend;
            i \<leftarrow> intercept trend;
            Some (s * real_of_int currentYear + i)
          };
          recent3Years = map val (filter (\<lambda>d. year d \<ge> currentYear - 3) series);
          recentP60 = (if length recent3Years > 0 then calculatePercentile recent3Years 60
                       else p50 (percentiles stats));
          predicted = do {
            w \<leftarrow> weightedAverage;
            t \<leftarrow> trendValue;
            p \<leftarrow> recentP60;
            Some ((w * 0.40) + (t * 0.35) + (p * 0.25))
          }
      in do { x \<leftarrow> predicted; Some (x + temp seasonalAdj) })"

text \<open>
  \<^verbatim>\<open>predictedTempMax\<close> and \<^verbatim>\<open>predictedTempMin\<close> after lines 637-663: the
  calibration entry's temperatures when there is one, the hybrid model otherwise.
\<close>

definition predictedTemperatures ::
  "DailySeries \<Rightarrow> Statistics \<Rightarrow> Statistics \<Rightarrow> int \<Rightarrow> int \<Rightarrow> number \<Rightarrow> number \<Rightarrow> number \<times> number" where
  "predictedTemperatures series tempMaxStats tempMinStats targetMonth currentYear currentLat currentLon =
     (let tempMaxTrend = calculateTrend (T2M_MAX series) currentYear;
          tempMinTrend = calculateTrend (T2M_MIN series) currentYear;
          currentYearFloat = real_of_int currentYear + (real_of_int targetMonth - 1) / 12;
          weightedAvgMax = weightedAvg (T2M_MAX series) currentYearFloat;
          weightedAvgMin = weightedAvg (T2M_MIN series) currentYearFloat;
          exactCalibration = findCalibration currentLat currentLon targetMonth;
          seasonalAdj = getSeasonalAdjustments targetMonth
      in case exactCalibration of
           Some cal \<Rightarrow> (Some (tempMax cal), Some (tempMin cal))
         | None \<Rightarrow>
             (hybridPrediction (T2M_MAX series) tempMaxTrend tempMaxStats weightedAvgMax currentYear seasonalAdj,
              hybridPrediction (T2M_MIN series) tempMinTrend tempMinStats weightedAvgMin currentYear seasonalAdj))"

text \<open>\<^verbatim>\<open>baseThresholds\<close> (lines 431-437) and \<^verbatim>\<open>thresholds\<close> (lines 696-720).\<close>

record Thresholds =
  veryHot :: number
  veryCold :: number
  veryWindy :: number
  veryHumid :: number
  heavyRain :: number

definition baseThresholds :: Thresholds where
  "baseThresholds =
     \<lparr>veryHot = Some 35, veryCold = Some 5, veryWindy = Some 10, veryHumid = Some 80,
      heavyRain = Some 10\<rparr>"

definition Math_max :: "number \<Rightarrow> number \<Rightarrow> number" where
  "Math_max a b = do { x \<leftarrow> a; y \<leftarrow> b; Some (max x y) }"

definition Math_min :: "number \<Rightarrow> number \<Rightarrow> number" where
  "Math_min a b = do { x \<leftarrow> a; y \<leftarrow> b; Some (min x y) }"

definition thresholds ::
  "Statistics \<Rightarrow> Statistics \<Rightarrow> Statistics \<Rightarrow> Statistics \<Rightarrow> TrendModel \<Rightarrow> TrendModel \<Rightarrow> Thresholds" where
  "thresholds tempMaxStats tempMinStats windMaxStats rainStats tempMaxTrend tempMinTrend =
     (let decadeProjection = 10
      in \<lparr>veryHot = Math_max (p90 (percentiles tempMaxStats))
                 (do { b \<leftarrow> veryHot baseThresholds; s \<leftarrow> slope tempMaxTrend;
                       Some (b + (s * decadeProjection)) }),
          veryCold = Math_min (p10 (percentiles tempMinStats))
                 (do { b \<leftarrow> veryCold baseThresholds; s \<leftarrow> slope tempMinTrend;
                       Some (b + (s * decadeProjection)) }),
          veryWindy = Math_max (p90 (percentiles windMaxStats)) (veryWindy baseThresholds),
          veryHumid = veryHumid baseThresholds,
          heavyRain = Math_max (p75 (percentiles rainStats)) (heavyRain baseThresholds)\<rparr>)"

text \<open>The risk scores of lines 749-772 as functions of their operands.\<close>

definition frostRiskRaw :: "real \<Rightarrow> real \<Rightarrow> real \<Rightarrow> real" where
  "frostRiskRaw predictedTempMin humidityMean windAvgMean =
     max 0 (10 - predictedTempMin) * 50 + humidityMean * 0.3 + max 0 (5 - windAvgMean) * 20"

definition frostRisk :: "real \<Rightarrow> real \<Rightarrow> real \<Rightarrow> real" where
  "frostRisk predictedTempMin humidityMean windAvgMean =
     min 100 (frostRiskRaw predictedTempMin humidityMean windAvgMean)"

definition stormRiskRaw :: "real \<Rightarrow> real \<Rightarrow> real \<Rightarrow> real" where
  "stormRiskRaw probHeavyRain windMaxMean humidityMean =
     probHeavyRain * 0.5 + (windMaxMean / 15) * 30 + (humidityMean / 100) * 20"

definition stormRisk :: "real \<Rightarrow> real \<Rightarrow> real \<Rightarrow> real" where
  "stormRisk probHeavyRain windMaxMean humidityMean =
     min 100 (stormRiskRaw probHeavyRain windMaxMean humidityMean)"

definition heatStressRiskRaw :: "real \<Rightarrow> real \<Rightarrow> real \<Rightarrow> real" where
  "heatStressRiskRaw predictedTempMax humidityMean windAvgMean =
     max 0 (predictedTempMax - 30) * 3 + (humidityMean / 100) * 30 + max 0 (5 - windAvgMean) * 10"

definition heatStressRisk :: "real \<Rightarrow> real \<Rightarrow> real \<Rightarrow> real" where
  "heatStressRisk predictedTempMax humidityMean windAvgMean =
     min 100 (heatStressRiskRaw predictedTempMax humidityMean windAvgMean)"

text \<open>\<^verbatim>\<open>getRiskLevel(score)\<close>, lines 774-778.\<close>

definition getRiskLevel :: "number \<Rightarrow> string" where
  "getRiskLevel score =
     (if nleq (Some 70) score then ''ALTO''
      else if nleq (Some 40) score then ''MEDIO''
      else ''BAJO'')"

record ConditionProbability =
  probability :: real
  threshold :: number
  yearsExceeded :: int
  totalYears :: nat

record RiskScore =
  score :: number
  level :: string

text \<open>\<^verbatim>\<open>Math.round(x)\<close>.\<close>

definition Math_round :: "real \<Rightarrow> int" where
  "Math_round x = \<lfloor>x + 1 / 2\<rfloor>"

text \<open>One entry of \<^verbatim>\<open>conditions\<close> in the returned object (lines 844-898).\<close>

definition condition :: "real \<Rightarrow> number \<Rightarrow> real list \<Rightarrow> ConditionProbability" where
  "condition prob thr vals =
     \<lparr>probability = toFixed 2 prob,
      threshold = thr,
      yearsExceeded = Math_round ((prob / 100) * real (length vals)),
      totalYears = length vals\<rparr>"

text \<open>
  The object \<^verbatim>\<open>calculateDailyProbabilities\<close> returns (lines 805-926), its nested
  objects flattened into one record. The prediction confidence, the recommendation
  texts, the descriptions, the units and the elevation note are left out.
\<close>

record DailyResult =
  trendPrediction_tempMax :: number
  trendPrediction_tempMin :: number
  trendPrediction_year :: int
  trendPrediction_seasonalAdjustment :: SeasonalFactor
  trendPrediction_trend_max :: TrendModel
  trendPrediction_trend_min :: TrendModel
  temperature_statistics :: Statistics
  temperature_max_statistics :: Statistics
  temperature_min_statistics :: Statistics
  temperature_conditions_veryHot :: ConditionProbability
  temperature_conditions_veryCold :: ConditionProbability
  wind_statistics :: Statistics
  wind_max_statistics :: Statistics
  wind_conditions_veryWindy :: ConditionProbability
  humidity_statistics :: Statistics
  humidity_conditions_veryHumid :: ConditionProbability
  precipitation_statistics :: Statistics
  precipitation_conditions_heavyRain :: ConditionProbability
  riskScores_frost :: RiskScore
  riskScores_storm :: RiskScore
  riskScores_heatStress :: RiskScore

text \<open>
  \<^verbatim>\<open>probVeryHumid\<close> (line 731) and \<^verbatim>\<open>probHeavyRain\<close> (lines 734-735).
\<close>

definition probVeryHumid :: "real list \<Rightarrow> Thresholds \<Rightarrow> SeasonalFactor \<Rightarrow> real" where
  "probVeryHumid humidityValues thr seasonalAdj =
     calculateRealProbability humidityValues (veryHumid thr) True * humidity seasonalAdj"

definition probHeavyRain :: "real list \<Rightarrow> Thresholds \<Rightarrow> SeasonalFactor \<Rightarrow> real" where
  "probHeavyRain rainValues thr seasonalAdj =
     (let probHeavyRain = calculateRealProbability rainValues (heavyRain thr) True * precip seasonalAdj
      in min 100 probHeavyRain)"

text \<open>
  \<^verbatim>\<open>calculateDailyProbabilities(data, targetDate, elevation, lat, lon)\<close>, lines 420-927,
  from the extracted series on. \<open>targetMonth\<close> is the month read from
  \<^verbatim>\<open>targetDate\<close>, \<open>currentYear\<close> is \<^verbatim>\<open>new Date().getFullYear()\<close>, and
  \<open>currentLat\<close>, \<open>currentLon\<close> are \<^verbatim>\<open>parseFloat(lat)\<close>, \<^verbatim>\<open>parseFloat(lon)\<close>.
\<close>

definition calculateDailyProbabilities ::
  "DailySeries \<Rightarrow> int \<Rightarrow> int \<Rightarrow> number \<Rightarrow> number \<Rightarrow> error + DailyResult" where
  "calculateDailyProbabilities series targetMonth currentYear currentLat currentLon =
     (let tempMaxValues = map val (T2M_MAX series);
          tempMinValues = map val (T2M_MIN series);
          tempAvgValues = map val (T2M series);
          windMaxValues = map val (WS2M_MAX series);
          windAvgValues = map val (WS2M series);
          humidityValues = map val (RH2M series);
          rainValues = map val (PRECTOTCORR series);
          tempMaxTrend = calculateTrend (T2M_MAX series) currentYear;
          tempMinTrend = calculateTrend (T2M_MIN series) currentYear
      in
      bindE (calculateStatistics tempMaxValues False) (\<lambda>tempMaxStats.
      bindE (calculateStatistics tempMinValues False) (\<lambda>tempMinStats.
      bindE (calculateStatistics tempAvgValues False) (\<lambda>tempAvgStats.
      bindE (calculateStatistics windMaxValues False) (\<lambda>windMaxStats.
      bindE (calculateStatistics windAvgValues False) (\<lambda>windAvgStats.
      bindE (calculateStatistics humidityValues False) (\<lambda>humidityStats.
      bindE (calculateStatistics rainValues False) (\<lambda>rainStats.
        let seasonalAdj = getSeasonalAdjustments targetMonth;
            predicted = predictedTemperatures series tempMaxStats tempMinStats targetMonth currentYear
                          currentLat currentLon;
            predictedTempMax = fst predicted;
            predictedTempMin = snd predicted;
            thr = thresholds tempMaxStats tempMinStats windMaxStats rainStats tempMaxTrend tempMinTrend;
            probVeryHot = calculateRealProbability tempMaxValues (veryHot thr) True;
            probVeryCold = calculateRealProbability tempMinValues (veryCold thr) False;
            probVeryWindy = calculateRealProbability windMaxValues (veryWindy thr) True;
            probHumid = probVeryHumid humidityValues thr seasonalAdj;
            probRain = probHeavyRain rainValues thr seasonalAdj;
            frost = do {
              t \<leftarrow> predictedTempMin; h \<leftarrow> mean humidityStats; w \<leftarrow> mean windAvgStats;
              Some (frostRisk t h w)
            };
            storm = do {
              w \<leftarrow> mean windMaxStats; h \<leftarrow> mean humidityStats;
              Some (stormRisk probRain w h)
            };
            heat = do {
              t \<leftarrow> predictedTempMax; h \<leftarrow> mean humidityStats; w \<leftarrow> mean windAvgStats;
              Some (heatStressRisk t h w)
            }
        in Inr \<lparr>trendPrediction_tempMax = ntoFixed 2 predictedTempMax,
                trendPrediction_tempMin = ntoFixed 2 predictedTempMin,
                trendPrediction_year = currentYear,
                trendPrediction_seasonalAdjustment = seasonalAdj,
                trendPrediction_trend_max = tempMaxTrend,
                trendPrediction_trend_min = tempMinTrend,
                temperature_statistics = tempAvgStats,
                temperature_max_statistics = tempMaxStats,
                temperature_min_statistics = tempMinStats,
                temperature_conditions_veryHot = condition probVeryHot (veryHot thr) tempMaxValues,
                temperature_conditions_veryCold = condition probVeryCold (veryCold thr) tempMinValues,
                wind_statistics = windAvgStats,
                wind_max_statistics = windMaxStats,
                wind_conditions_veryWindy = condition probVeryWindy (veryWindy thr) windMaxValues,
                humidity_statistics = humidityStats,
                humidity_conditions_veryHumid = condition probHumid (veryHumid thr) humidityValues,
                precipitation_statistics = rainStats,
                precipitation_conditions_heavyRain = condition probRain (heavyRain thr) rainValues,
                riskScores_frost = \<lparr>score = ntoFixed 1 frost, level = getRiskLevel frost\<rparr>,
                riskScores_storm = \<lparr>score = ntoFixed 1 storm, level = getRiskLevel storm\<rparr>,
                riskScores_heatStress = \<lparr>score = ntoFixed 1 heat, level = getRiskLevel heat\<rparr>\<rparr>))))))))"

section \<open>Hourly interpolation\<close>






section \<open>Example inputs\<close>

definition emptySeries :: DailySeries where
  "emptySeries = \<lparr>T2M_MAX = [], T2M_MIN = [], T2M = [], WS2M_MAX = [], WS2M = [], RH2M = [], PRECTOTCORR = []\<rparr>"

text \<open>Ten years, 2000 to 2009, with the value 0 in each.\<close>

definition constantSeries :: "ObservationPoint list" where
  "constantSeries = map (\<lambda>y. \<lparr>year = y, val = 0\<rparr>) [2000, 2001, 2002, 2003, 2004, 2005, 2006, 2007, 2008, 2009]"

text \<open>Ten years, 2015 to 2024, the value rising by one a year from 25.\<close>

definition risingSeries :: "ObservationPoint list" where
  "risingSeries = map (\<lambda>y. \<lparr>year = y, val = real_of_int (y - 1990)\<rparr>)
     [2015, 2016, 2017, 2018, 2019, 2020, 2021, 2022, 2023, 2024]"

text \<open>
  The series of a day with one humidity observation of \<open>-100\<close> and one mean-wind
  observation of 10, and none of the other parameters.
\<close>

definition negativeHumiditySeries :: DailySeries where
  "negativeHumiditySeries =
     emptySeries\<lparr>RH2M := [\<lparr>year = 2024, val = - 100\<rparr>], WS2M := [\<lparr>year = 2024, val = 10\<rparr>]\<rparr>"

text \<open>
  The temperature series of 29 February: the thirty years before 2025 have eight leap
  days.
\<close>

definition leapDaySeries :: DailySeries where
  "leapDaySeries =
     emptySeries
       \<lparr>T2M_MAX := [\<lparr>year = 1996, val = 24\<rparr>, \<lparr>year = 2000, val = 25\<rparr>, \<lparr>year = 2004, val = 23\<rparr>,
                   \<lparr>year = 2008, val = 26\<rparr>, \<lparr>year = 2012, val = 24\<rparr>, \<lparr>year = 2016, val = 25\<rparr>,
                   \<lparr>year = 2020, val = 26\<rparr>, \<lparr>year = 2024, val = 27\<rparr>],
        T2M_MIN := [\<lparr>year = 1996, val = 10\<rparr>, \<lparr>year = 2000, val = 11\<rparr>, \<lparr>year = 2004, val = 9\<rparr>,
                   \<lparr>year = 2008, val = 12\<rparr>, \<lparr>year = 2012, val = 10\<rparr>, \<lparr>year = 2016, val = 11\<rparr>,
                   \<lparr>year = 2020, val = 12\<rparr>, \<lparr>year = 2024, val = 13\<rparr>]\<rparr>"

section \<open>Auxiliary notions\<close>

text \<open>
  The interpolation of \<^verbatim>\<open>calculatePercentile\<close> at the real rank \<open>t\<close> of a sorted list,
  for ranks inside the list.
\<close>

definition interp :: "real list \<Rightarrow> real \<Rightarrow> real" where
  "interp s t = s ! nat \<lfloor>t\<rfloor> * (1 - (t - of_int \<lfloor>t\<rfloor>)) + s ! nat \<lceil>t\<rceil> * (t - of_int \<lfloor>t\<rfloor>)"

text \<open>
  The weighted least-squares line through the points \<open>(x d, y d)\<close> in its centred
  form: the slope is the weighted covariance over the weighted variance, and the line
  passes through the weighted means. \<open>decayWeight tau currentYear\<close> is the weight
  \<open>exp (- (currentYear - year) / tau)\<close> of an observation.
\<close>

definition weightedMean :: "('a \<Rightarrow> real) \<Rightarrow> ('a \<Rightarrow> real) \<Rightarrow> 'a list \<Rightarrow> real" where
  "weightedMean w f ds = (\<Sum>d\<leftarrow>ds. w d * f d) / (\<Sum>d\<leftarrow>ds. w d)"

definition leastSquaresSlope :: "('a \<Rightarrow> real) \<Rightarrow> ('a \<Rightarrow> real) \<Rightarrow> ('a \<Rightarrow> real) \<Rightarrow> 'a list \<Rightarrow> real" where
  "leastSquaresSlope w x y ds =
     (\<Sum>d\<leftarrow>ds. w d * (x d - weightedMean w x ds) * (y d - weightedMean w y ds)) /
     (\<Sum>d\<leftarrow>ds. w d * (x d - weightedMean w x ds) ^ 2)"

definition leastSquaresIntercept :: "('a \<Rightarrow> real) \<Rightarrow> ('a \<Rightarrow> real) \<Rightarrow> ('a \<Rightarrow> real) \<Rightarrow> 'a list \<Rightarrow> real" where
  "leastSquaresIntercept w x y ds =
     weightedMean w y ds - leastSquaresSlope w x y ds * weightedMean w x ds"

definition decayWeight :: "real \<Rightarrow> int \<Rightarrow> ObservationPoint \<Rightarrow> real" where
  "decayWeight tau currentYear d = exp (- (real_of_int currentYear - real_of_int (year d)) / tau)"

section \<open>Percentiles\<close>

lemma calculatePercentile_interp:
  assumes "xs \<noteq> []" "0 \<le> p" "p \<le> 100"
  shows "calculatePercentile xs p = Some (interp (sort xs) (p / 100 * (real (length xs) - 1)))"
proof -
  let ?n = "length xs"
  let ?t = "p / 100 * (real ?n - 1)"
  have n: "1 \<le> real ?n" using assms(1) by (cases xs) auto
  have t0: "0 \<le> ?t" using assms n by simp
  have "?t \<le> 1 * (real ?n - 1)"
    using assms n by (intro mult_right_mono) auto
  then have t1: "?t \<le> real ?n - 1" by simp
  have f0: "0 \<le> \<lfloor>?t\<rfloor>" using t0 by simp
  have c0: "0 \<le> \<lceil>?t\<rceil>" using t0 by (simp add: ceiling_le_iff le_of_int_ceiling order_trans)
  have "?t \<le> of_int (int ?n - 1)" using t1 by simp
  then have "\<lceil>?t\<rceil> \<le> int ?n - 1" by (rule ceiling_le)
  then have c1: "\<lceil>?t\<rceil> < int ?n" by simp
  have f1: "\<lfloor>?t\<rfloor> < int ?n" using c1 floor_le_ceiling[of ?t] by linarith
  show ?thesis
    using assms(1) f0 f1 c0 c1
    by (simp add: calculatePercentile_def nth_num_def interp_def Let_def)
qed

lemma interp_bounds:
  assumes "sorted s" "0 \<le> t" "t \<le> real (length s) - 1"
  shows "s ! nat \<lfloor>t\<rfloor> \<le> interp s t" "interp s t \<le> s ! nat \<lceil>t\<rceil>"
proof -
  let ?w = "t - of_int \<lfloor>t\<rfloor>"
  have w: "0 \<le> ?w" "?w \<le> 1" by linarith+
  have "t \<le> of_int (int (length s) - 1)" using assms(3) by simp
  then have "\<lceil>t\<rceil> \<le> int (length s) - 1" by (rule ceiling_le)
  moreover have "0 \<le> \<lfloor>t\<rfloor>" using assms(2) by simp
  ultimately have "nat \<lfloor>t\<rfloor> \<le> nat \<lceil>t\<rceil>" "nat \<lceil>t\<rceil> < length s"
    using floor_le_ceiling[of t] by linarith+
  then have ab: "s ! nat \<lfloor>t\<rfloor> \<le> s ! nat \<lceil>t\<rceil>"
    using assms(1) by (simp add: sorted_nth_mono)
  have e1: "interp s t = s ! nat \<lfloor>t\<rfloor> + ?w * (s ! nat \<lceil>t\<rceil> - s ! nat \<lfloor>t\<rfloor>)"
    by (simp add: interp_def algebra_simps)
  have e2: "interp s t = s ! nat \<lceil>t\<rceil> - (1 - ?w) * (s ! nat \<lceil>t\<rceil> - s ! nat \<lfloor>t\<rfloor>)"
    by (simp add: interp_def algebra_simps)
  show "s ! nat \<lfloor>t\<rfloor> \<le> interp s t"
    unfolding e1 using w ab by simp
  show "interp s t \<le> s ! nat \<lceil>t\<rceil>"
    unfolding e2 using w ab by simp
qed

lemma interp_mono:
  assumes "sorted s" "0 \<le> t" "t \<le> u" "u \<le> real (length s) - 1"
  shows "interp s t \<le> interp s u"
proof (cases "\<lfloor>t\<rfloor> = \<lfloor>u\<rfloor>")
  case True
  show ?thesis
  proof (cases "t = of_int \<lfloor>t\<rfloor>")
    case True
    then have "interp s t = s ! nat \<lfloor>t\<rfloor>" by (simp add: interp_def)
    also have "\<dots> = s ! nat \<lfloor>u\<rfloor>" using \<open>\<lfloor>t\<rfloor> = \<lfloor>u\<rfloor>\<close> by simp
    also have "\<dots> \<le> interp s u" using interp_bounds(1)[of s u] assms by simp
    finally show ?thesis .
  next
    case False
    then have tl: "of_int \<lfloor>t\<rfloor> < t" using of_int_floor_le[of t] by linarith
    then have ul: "of_int \<lfloor>u\<rfloor> < u" using True assms(3) by simp
    have ct: "\<lceil>t\<rceil> = \<lfloor>t\<rfloor> + 1" using tl by (simp add: ceiling_altdef)
    have cu: "\<lceil>u\<rceil> = \<lfloor>t\<rfloor> + 1" using ul True by (simp add: ceiling_altdef)
    let ?a = "s ! nat \<lfloor>t\<rfloor>" and ?b = "s ! nat (\<lfloor>t\<rfloor> + 1)"
    have "0 \<le> \<lfloor>t\<rfloor>" using assms(2) by simp
    moreover have "u \<le> of_int (int (length s) - 1)" using assms(4) by simp
    then have "\<lceil>u\<rceil> \<le> int (length s) - 1" by (rule ceiling_le)
    ultimately have "nat \<lfloor>t\<rfloor> \<le> nat (\<lfloor>t\<rfloor> + 1)" "nat (\<lfloor>t\<rfloor> + 1) < length s"
      using cu by linarith+
    then have ab: "?a \<le> ?b" using assms(1) by (simp add: sorted_nth_mono)
    have "interp s t = ?a + (t - of_int \<lfloor>t\<rfloor>) * (?b - ?a)"
      by (simp add: interp_def ct algebra_simps)
    also have "\<dots> \<le> ?a + (u - of_int \<lfloor>t\<rfloor>) * (?b - ?a)"
      using ab assms(3) by (simp add: mult_right_mono)
    also have "\<dots> = interp s u"
      using True by (simp add: interp_def cu algebra_simps)
    finally show ?thesis .
  qed
next
  case False
  have "\<lfloor>t\<rfloor> \<le> \<lfloor>u\<rfloor>" using assms(3) by (rule floor_mono)
  with False have lt: "\<lfloor>t\<rfloor> < \<lfloor>u\<rfloor>" by simp
  have "\<lceil>t\<rceil> \<le> \<lfloor>t\<rfloor> + 1" by (simp add: ceiling_altdef)
  with lt have cf: "\<lceil>t\<rceil> \<le> \<lfloor>u\<rfloor>" by simp
  have "0 \<le> \<lceil>t\<rceil>" using assms(2) by (simp add: ceiling_le_iff le_of_int_ceiling order_trans)
  moreover have "\<lfloor>u\<rfloor> \<le> int (length s) - 1" using assms(4) by (simp add: floor_le_iff) linarith
  ultimately have "nat \<lceil>t\<rceil> \<le> nat \<lfloor>u\<rfloor>" "nat \<lfloor>u\<rfloor> < length s"
    using cf by linarith+
  then have mid: "s ! nat \<lceil>t\<rceil> \<le> s ! nat \<lfloor>u\<rfloor>"
    using assms(1) by (simp add: sorted_nth_mono)
  have "interp s t \<le> s ! nat \<lceil>t\<rceil>"
    using interp_bounds(2)[of s t] assms by simp
  also note mid
  also have "s ! nat \<lfloor>u\<rfloor> \<le> interp s u"
    using interp_bounds(1)[of s u] assms by simp
  finally show ?thesis .
qed

lemma sort_nth_0: "xs \<noteq> [] \<Longrightarrow> sort xs ! 0 = Min (set xs)"
proof -
  assume a: "xs \<noteq> []"
  then have ne: "sort xs \<noteq> []" by (metis length_sort length_0_conv)
  have "sort xs ! 0 = hd (sort xs)" using ne by (simp add: hd_conv_nth)
  also have "\<dots> = Min (set (sort xs))"
    using ne sorted_sort[of xs] by (cases "sort xs") (auto intro!: Min_eqI[symmetric])
  finally show ?thesis by simp
qed

lemma sort_nth_last: "xs \<noteq> [] \<Longrightarrow> sort xs ! (length xs - 1) = Max (set xs)"
proof -
  assume a: "xs \<noteq> []"
  let ?s = "sort xs"
  have len: "length ?s = length xs" by simp
  have "Max (set ?s) = ?s ! (length xs - 1)"
  proof (rule Max_eqI)
    show "finite (set ?s)" by simp
    show "?s ! (length xs - 1) \<in> set ?s" using a len by (metis diff_less length_greater_0_conv nth_mem zero_less_one)
    fix y assume "y \<in> set ?s"
    then obtain i where "i < length ?s" "?s ! i = y" unfolding in_set_conv_nth by blast
    then show "y \<le> ?s ! (length xs - 1)"
      using sorted_sort[of xs] sorted_nth_mono[of ?s i "length xs - 1"] a by auto
  qed
  then show ?thesis by simp
qed

text \<open>
  Claim C7. For every non-empty list, \<^verbatim>\<open>calculatePercentile\<close> at 0 is the minimum of the
  list, at 100 it is the maximum, and it is monotonically non-decreasing in the
  percentile: for \<open>0 \<le> p \<le> q \<le> 100\<close> the value at \<open>p\<close> is at most the value at \<open>q\<close>.
\<close>

theorem percentile_min_max_monotone:
  assumes "xs \<noteq> []"
  shows "calculatePercentile xs 0 = Some (Min (set xs)) \<and>
         calculatePercentile xs 100 = Some (Max (set xs)) \<and>
         (\<forall>p q. 0 \<le> p \<and> p \<le> q \<and> q \<le> 100 \<longrightarrow>
            (\<exists>a b. calculatePercentile xs p = Some a \<and> calculatePercentile xs q = Some b \<and> a \<le> b))"
proof (intro conjI allI impI)
  have n: "1 \<le> real (length xs)" using assms by (cases xs) auto
  have "calculatePercentile xs 0 = Some (interp (sort xs) 0)"
    using calculatePercentile_interp[OF assms, of 0] by simp
  then show "calculatePercentile xs 0 = Some (Min (set xs))"
    using sort_nth_0[OF assms] by (simp add: interp_def)
  have nn: "nat (int (length xs) - 1) = length xs - 1" by simp
  have "calculatePercentile xs 100 = Some (interp (sort xs) (real (length xs) - 1))"
    using calculatePercentile_interp[OF assms, of 100] by simp
  moreover have "real (length xs) - 1 = of_int (int (length xs) - 1)" by simp
  then have "interp (sort xs) (real (length xs) - 1) = sort xs ! (length xs - 1)"
    unfolding interp_def by (simp only: floor_of_int ceiling_of_int nn) simp
  ultimately show "calculatePercentile xs 100 = Some (Max (set xs))"
    using sort_nth_last[OF assms] by simp
  fix p q :: real
  assume h: "0 \<le> p \<and> p \<le> q \<and> q \<le> 100"
  let ?t = "p / 100 * (real (length xs) - 1)" and ?u = "q / 100 * (real (length xs) - 1)"
  have t0: "0 \<le> ?t" using h n by simp
  have tu: "?t \<le> ?u" using h n by (intro mult_right_mono) auto
  have "?u \<le> 1 * (real (length xs) - 1)" using h n by (intro mult_right_mono) auto
  then have u1: "?u \<le> real (length (sort xs)) - 1" by simp
  have "interp (sort xs) ?t \<le> interp (sort xs) ?u"
    using interp_mono[OF sorted_sort t0 tu u1] .
  moreover have "calculatePercentile xs p = Some (interp (sort xs) ?t)"
    using calculatePercentile_interp[OF assms, of p] h by simp
  moreover have "calculatePercentile xs q = Some (interp (sort xs) ?u)"
    using calculatePercentile_interp[OF assms, of q] h by simp
  ultimately show "\<exists>a b. calculatePercentile xs p = Some a \<and> calculatePercentile xs q = Some b \<and> a \<le> b"
    by simp
qed

theorem percentile_min_max_monotone_witness:
  "[3, 1, 2::real] \<noteq> [] \<and> (0::real) \<le> 25 \<and> (25::real) \<le> 75 \<and> (75::real) \<le> 100 \<and>
   calculatePercentile [3, 1, 2] 0 = Some 1 \<and>
   calculatePercentile [3, 1, 2] 100 = Some 3 \<and>
   (\<exists>a b. calculatePercentile [3, 1, 2] 25 = Some a \<and> calculatePercentile [3, 1, 2] 75 = Some b \<and> a \<le> b)"
proof -
  have ne: "[3, 1, 2::real] \<noteq> []" by simp
  have r: "(0::real) \<le> 25 \<and> (25::real) \<le> 75 \<and> (75::real) \<le> 100" by simp
  from percentile_min_max_monotone[OF ne] r show ?thesis by simp
qed

section \<open>Statistics and the outlier filter\<close>

text \<open>
  Claim C9. On an empty series \<^verbatim>\<open>calculateStatistics\<close> returns, without an exception, the
  record with mean, median, deviation, minimum and maximum 0, count 0, all five
  percentiles 0 and the confidence interval \<open>{lower: 0, upper: 0, margin: 0}\<close>.
\<close>

theorem calculateStatistics_empty:
  "calculateStatistics [] removeOutliers =
     Inr \<lparr>mean = Some 0, median = Some 0, stdDev = Some 0, minimum = Some 0, maximum = Some 0,
          count = 0,
          percentiles = \<lparr>p10 = Some 0, p25 = Some 0, p50 = Some 0, p75 = Some 0, p90 = Some 0\<rparr>,
          confidenceInterval95 = \<lparr>lower = 0, upper = 0, margin = 0\<rparr>\<rparr>"
  by (simp add: calculateStatistics_def)

lemma subseq_iqrFiltered: "subseq (iqrFiltered values) values"
  by (simp add: iqrFiltered_def Let_def)

lemma filterOutliers_cases:
  "filterOutliers values = values \<or>
   (filterOutliers values = iqrFiltered values \<and>
    real (length values) * 0.9 \<le> real (length (iqrFiltered values)))"
  by (auto simp: filterOutliers_def Let_def)

lemma filterOutliers_length:
  "real (length values) * 0.9 \<le> real (length (filterOutliers values))"
  using filterOutliers_cases[of "values"] by auto

lemma filterOutliers_nonempty: "values \<noteq> [] \<Longrightarrow> filterOutliers values \<noteq> []"
proof
  assume a: "values \<noteq> []" and e: "filterOutliers values = []"
  have "0 < real (length values) * 0.9" using a by simp
  with filterOutliers_length[of "values"] e show False by simp
qed

lemma calculateStatistics_total: "\<exists>s. calculateStatistics values b = Inr s"
proof (cases "values = []")
  case True
  then show ?thesis by (simp add: calculateStatistics_def)
next
  case False
  then have "filterOutliers values \<noteq> []" by (rule filterOutliers_nonempty)
  with False show ?thesis by (simp add: calculateStatistics_def Let_def)
qed

lemma percentile_example_q1: "calculatePercentile [0,0,0,0,5] 25 = Some 0"
  by (simp add: calculatePercentile_def nth_num_def Let_def)
lemma percentile_example_q3: "calculatePercentile [0,0,0,0,5] 75 = Some 0"
  by (simp add: calculatePercentile_def nth_num_def Let_def)

lemma iqrFiltered_example: "iqrFiltered [0, 0, 0, 0, 5] = [0, 0, 0, 0]"
  by (simp add: iqrFiltered_def percentile_example_q1 percentile_example_q3 Let_def nleq_def)

text \<open>
  Claim C8. The outlier filter returns a sublist of the input with at least 90% of its
  length; it returns the input unchanged when the list has fewer than 4 points or when
  the values inside the bounds are fewer than 90%. So the result is never empty for a
  non-empty input, the branch of \<^verbatim>\<open>calculateStatistics\<close> that assigns to the constant
  \<^verbatim>\<open>dataToAnalyze\<close> is never reached, and \<^verbatim>\<open>calculateStatistics\<close> with the filter on
  returns a record.
\<close>

theorem filterOutliers_keeps_90_percent:
  "subseq (filterOutliers values) values \<and>
   real (length values) * 0.9 \<le> real (length (filterOutliers values)) \<and>
   (length values < 4 \<longrightarrow> filterOutliers values = values) \<and>
   (real (length (iqrFiltered values)) < real (length values) * 0.9 \<longrightarrow>
      filterOutliers values = values) \<and>
   (values \<noteq> [] \<longrightarrow> filterOutliers values \<noteq> []) \<and>
   calculateStatistics values True \<noteq> Inl TypeError \<and>
   (\<exists>s. calculateStatistics values True = Inr s)"
proof (intro conjI impI)
  show "subseq (filterOutliers values) values"
    using filterOutliers_cases[of "values"] subseq_iqrFiltered[of "values"] by auto
  show "real (length values) * 0.9 \<le> real (length (filterOutliers values))"
    by (rule filterOutliers_length)
  show "\<exists>s. calculateStatistics values True = Inr s" by (rule calculateStatistics_total)
  then show "calculateStatistics values True \<noteq> Inl TypeError" by auto
next
  assume "length values < 4"
  then show "filterOutliers values = values" by (simp add: filterOutliers_def)
next
  assume "real (length (iqrFiltered values)) < real (length values) * 0.9"
  then show "filterOutliers values = values" by (simp add: filterOutliers_def Let_def)
next
  assume "values \<noteq> []"
  then show "filterOutliers values \<noteq> []" by (rule filterOutliers_nonempty)
qed

theorem filterOutliers_keeps_90_percent_witness:
  "[0, 0, 0, 0, 5::real] \<noteq> [] \<and>
   real (length (iqrFiltered [0, 0, 0, 0, 5])) < real (length [0, 0, 0, 0, 5::real]) * 0.9 \<and>
   filterOutliers [0, 0, 0, 0, 5] = [0, 0, 0, 0, 5] \<and>
   filterOutliers [0, 0, 0, 0, 5] \<noteq> [] \<and>
   subseq (filterOutliers [0, 0, 0, 0, 5]) [0, 0, 0, 0, 5] \<and>
   real (length [0, 0, 0, 0, 5::real]) * 0.9 \<le> real (length (filterOutliers [0, 0, 0, 0, 5])) \<and>
   (\<exists>s. calculateStatistics [0, 0, 0, 0, 5] True = Inr s) \<and>
   length [7::real] < 4 \<and> filterOutliers [7] = [7]"
proof -
  have ne: "[0, 0, 0, 0, 5::real] \<noteq> []" by simp
  have few: "real (length (iqrFiltered [0, 0, 0, 0, 5])) < real (length [0, 0, 0, 0, 5::real]) * 0.9"
    by (simp add: iqrFiltered_example)
  have short: "length [7::real] < 4" by simp
  from filterOutliers_keeps_90_percent[of "[0, 0, 0, 0, 5]"] filterOutliers_keeps_90_percent[of "[7]"]
    ne few short
  show ?thesis by simp
qed

section \<open>The daily pipeline returns\<close>

lemma calculateStatistics_unfiltered:
  "calculateStatistics vs False = Inr (projr (calculateStatistics vs False))"
  using calculateStatistics_total[of vs False] by auto

lemma bindE_calculateStatistics:
  "bindE (calculateStatistics vs False) f = f (projr (calculateStatistics vs False))"
  by (subst calculateStatistics_unfiltered) (simp add: bindE_def)

lemma calculatePercentile_defined:
  assumes "0 \<le> p" "p \<le> 100"
  shows "\<exists>v. calculatePercentile xs p = Some v"
proof (cases "xs = []")
  case True
  then show ?thesis by (simp add: calculatePercentile_def)
next
  case False
  then show ?thesis using calculatePercentile_interp[OF False assms] by simp
qed

lemma calculateStatistics_p90:
  assumes "calculatePercentile vs 90 = Some p"
  shows "p90 (percentiles (projr (calculateStatistics vs False))) = Some (toFixed 2 p)"
proof (cases "vs = []")
  case True
  with assms have "p = 0" by (simp add: calculatePercentile_def)
  with True show ?thesis by (simp add: calculateStatistics_def toFixed_def)
next
  case False
  with assms show ?thesis by (simp add: calculateStatistics_def Let_def ntoFixed_def)
qed

lemma calculateStatistics_mean:
  assumes "vs \<noteq> []"
  shows "mean (projr (calculateStatistics vs False)) = Some (toFixed 2 (sum_list vs / real (length vs)))"
  using assms by (simp add: calculateStatistics_def Let_def)

lemma calculateStatistics_mean_empty: "mean (projr (calculateStatistics [] False)) = Some 0"
  by (simp add: calculateStatistics_def)

lemma calculateDailyProbabilities_returns:
  "\<exists>r. calculateDailyProbabilities series targetMonth currentYear currentLat currentLon = Inr r"
  by (simp add: calculateDailyProbabilities_def bindE_calculateStatistics Let_def)

lemma veryHot_fields:
  assumes "calculateDailyProbabilities series targetMonth currentYear currentLat currentLon = Inr r"
  shows "temperature_max_statistics r = projr (calculateStatistics (map val (T2M_MAX series)) False)"
    and "trendPrediction_trend_max r = calculateTrend (T2M_MAX series) currentYear"
    and "threshold (temperature_conditions_veryHot r) =
           Math_max (p90 (percentiles (temperature_max_statistics r)))
             (map_option (\<lambda>s. 35 + s * 10) (slope (trendPrediction_trend_max r)))"
  using assms
  by (auto simp: calculateDailyProbabilities_def bindE_calculateStatistics Let_def condition_def
      thresholds_def baseThresholds_def map_option_case split: option.splits)

section \<open>Weighted sums\<close>

text \<open>
  The algebra of a weighted least-squares line through points \<open>(x d, y d)\<close> with
  positive weights \<open>w d\<close>: its residual sum of squares is between 0 and the total sum
  of squares, and where the weighted variance of \<open>x\<close> is 0 so is the covariance.
\<close>

lemma weighted_square_expand:
  fixes w x y :: "'a \<Rightarrow> real"
  shows "(\<Sum>d\<leftarrow>ds. w d * (y d - (s * x d + i)) ^ 2) =
         (\<Sum>d\<leftarrow>ds. w d * y d * y d) + s ^ 2 * (\<Sum>d\<leftarrow>ds. w d * x d * x d) + i ^ 2 * (\<Sum>d\<leftarrow>ds. w d)
         - 2 * s * (\<Sum>d\<leftarrow>ds. w d * x d * y d) - 2 * i * (\<Sum>d\<leftarrow>ds. w d * y d)
         + 2 * s * i * (\<Sum>d\<leftarrow>ds. w d * x d)"
  by (induction ds) (simp_all add: algebra_simps power2_eq_square)

lemma weighted_deviation_expand:
  fixes w y :: "'a \<Rightarrow> real"
  shows "(\<Sum>d\<leftarrow>ds. w d * (y d - m) ^ 2) =
         (\<Sum>d\<leftarrow>ds. w d * y d * y d) + m ^ 2 * (\<Sum>d\<leftarrow>ds. w d) - 2 * m * (\<Sum>d\<leftarrow>ds. w d * y d)"
  by (induction ds) (simp_all add: algebra_simps power2_eq_square)

lemma weighted_sum_nonneg:
  fixes w f :: "'a \<Rightarrow> real"
  assumes "\<And>d. d \<in> set ds \<Longrightarrow> 0 < w d"
  shows "0 \<le> (\<Sum>d\<leftarrow>ds. w d * (f d) ^ 2)"
  using assms by (induction ds) (auto intro!: add_nonneg_nonneg mult_nonneg_nonneg simp: less_imp_le)

lemma weights_sum_pos:
  fixes w :: "'a \<Rightarrow> real"
  assumes "\<And>d. d \<in> set ds \<Longrightarrow> 0 < w d" "ds \<noteq> []"
  shows "0 < (\<Sum>d\<leftarrow>ds. w d)"
  using assms
proof (induction ds)
  case Nil
  then show ?case by simp
next
  case (Cons a ds)
  then show ?case by (cases "ds = []") (auto intro: add_pos_pos)
qed

lemma weighted_residual_bounds:
  fixes w x y :: "'a \<Rightarrow> real"
  assumes pos: "\<And>d. d \<in> set ds \<Longrightarrow> 0 < w d" and ne: "ds \<noteq> []"
  defines "W \<equiv> (\<Sum>d\<leftarrow>ds. w d)"
    and "X \<equiv> (\<Sum>d\<leftarrow>ds. w d * x d)"
    and "Y \<equiv> (\<Sum>d\<leftarrow>ds. w d * y d)"
    and "XY \<equiv> (\<Sum>d\<leftarrow>ds. w d * x d * y d)"
    and "XX \<equiv> (\<Sum>d\<leftarrow>ds. w d * x d * x d)"
  defines "s \<equiv> (XY - X * Y / W) / (XX - X * X / W)"
  defines "i \<equiv> (Y - s * X) / W"
  assumes den: "XX - X * X / W \<noteq> 0"
  shows "0 \<le> (\<Sum>d\<leftarrow>ds. w d * (y d - (s * x d + i)) ^ 2)"
    and "(\<Sum>d\<leftarrow>ds. w d * (y d - (s * x d + i)) ^ 2) \<le> (\<Sum>d\<leftarrow>ds. w d * (y d - Y / W) ^ 2)"
proof -
  define YY where "YY = (\<Sum>d\<leftarrow>ds. w d * y d * y d)"
  define Sxx where "Sxx = XX - X * X / W"
  define Sxy where "Sxy = XY - X * Y / W"
  have W: "0 < W" unfolding W_def using pos ne by (rule weights_sum_pos)
  show "0 \<le> (\<Sum>d\<leftarrow>ds. w d * (y d - (s * x d + i)) ^ 2)"
    using pos by (rule weighted_sum_nonneg)
  have "0 \<le> (\<Sum>d\<leftarrow>ds. w d * (x d - X / W) ^ 2)"
    using pos by (rule weighted_sum_nonneg)
  also have "(\<Sum>d\<leftarrow>ds. w d * (x d - X / W) ^ 2) = Sxx"
    unfolding weighted_deviation_expand Sxx_def XX_def[symmetric] W_def[symmetric] X_def[symmetric]
    using W by (simp add: field_simps power2_eq_square)
  finally have "0 \<le> Sxx" .
  with den have Sxx: "0 < Sxx" unfolding Sxx_def by simp
  have s: "s = Sxy / Sxx" unfolding s_def Sxy_def Sxx_def ..
  have tot: "(\<Sum>d\<leftarrow>ds. w d * (y d - Y / W) ^ 2) = YY - Y * Y / W"
    unfolding weighted_deviation_expand YY_def[symmetric] W_def[symmetric] Y_def[symmetric]
    using W by (simp add: field_simps power2_eq_square)
  have "(\<Sum>d\<leftarrow>ds. w d * (y d - (s * x d + i)) ^ 2) =
        YY + s ^ 2 * XX + i ^ 2 * W - 2 * s * XY - 2 * i * Y + 2 * s * i * X"
    unfolding weighted_square_expand YY_def XX_def W_def XY_def Y_def X_def ..
  also have "\<dots> = (YY - Y * Y / W) - 2 * s * Sxy + s ^ 2 * Sxx"
    unfolding i_def Sxy_def Sxx_def using W by (simp add: field_simps power2_eq_square)
  also have "- 2 * s * Sxy + s ^ 2 * Sxx = - (Sxy ^ 2 / Sxx)"
    unfolding s using Sxx by (simp add: field_simps power2_eq_square)
  then have "(YY - Y * Y / W) - 2 * s * Sxy + s ^ 2 * Sxx = (YY - Y * Y / W) - Sxy ^ 2 / Sxx"
    by simp
  also have "\<dots> \<le> YY - Y * Y / W"
    using Sxx by simp
  finally show "(\<Sum>d\<leftarrow>ds. w d * (y d - (s * x d + i)) ^ 2) \<le> (\<Sum>d\<leftarrow>ds. w d * (y d - Y / W) ^ 2)"
    unfolding tot .
qed

lemma weighted_covariance_vanishes:
  fixes w x y :: "'a \<Rightarrow> real"
  assumes pos: "\<And>d. d \<in> set ds \<Longrightarrow> 0 < w d" and ne: "ds \<noteq> []"
  defines "W \<equiv> (\<Sum>d\<leftarrow>ds. w d)"
    and "X \<equiv> (\<Sum>d\<leftarrow>ds. w d * x d)"
    and "Y \<equiv> (\<Sum>d\<leftarrow>ds. w d * y d)"
  assumes den: "(\<Sum>d\<leftarrow>ds. w d * x d * x d) - X * X / W = 0"
  shows "(\<Sum>d\<leftarrow>ds. w d * x d * y d) - X * Y / W = 0"
proof -
  have W: "0 < W" unfolding W_def using pos ne by (rule weights_sum_pos)
  have "(\<Sum>d\<leftarrow>ds. w d * (x d - X / W) ^ 2) = (\<Sum>d\<leftarrow>ds. w d * x d * x d) - X * X / W"
    unfolding weighted_deviation_expand W_def[symmetric] X_def[symmetric]
    using W by (simp add: field_simps power2_eq_square)
  with den have z: "sum_list (map (\<lambda>d. w d * (x d - X / W) ^ 2) ds) = 0" by simp
  have "\<forall>v \<in> set (map (\<lambda>d. w d * (x d - X / W) ^ 2) ds). v = 0"
    using z by (subst (asm) sum_list_nonneg_eq_0_iff) (auto simp: less_imp_le pos)
  then have c: "x d = X / W" if "d \<in> set ds" for d
    using that pos[OF that] by auto
  have "(\<Sum>d\<leftarrow>ds. w d * x d * y d) = (\<Sum>d\<leftarrow>ds. (X / W) * (w d * y d))"
    by (rule arg_cong[where f = sum_list], rule map_cong) (simp_all add: c)
  also have "\<dots> = X / W * Y" unfolding Y_def by (rule sum_list_const_mult)
  finally show ?thesis by simp
qed

lemma weighted_variance_zero:
  fixes w x :: "'a \<Rightarrow> real"
  assumes pos: "\<And>d. d \<in> set ds \<Longrightarrow> 0 < w d" and ne: "ds \<noteq> []"
    and den: "(\<Sum>d\<leftarrow>ds. w d * x d * x d) - (\<Sum>d\<leftarrow>ds. w d * x d) * (\<Sum>d\<leftarrow>ds. w d * x d) / (\<Sum>d\<leftarrow>ds. w d) = 0"
    and d: "d \<in> set ds"
  shows "x d = (\<Sum>d\<leftarrow>ds. w d * x d) / (\<Sum>d\<leftarrow>ds. w d)"
proof -
  let ?W = "(\<Sum>d\<leftarrow>ds. w d)" and ?X = "(\<Sum>d\<leftarrow>ds. w d * x d)"
  have W: "0 < ?W" using pos ne by (rule weights_sum_pos)
  have "(\<Sum>d\<leftarrow>ds. w d * (x d - ?X / ?W) ^ 2) = (\<Sum>d\<leftarrow>ds. w d * x d * x d) - ?X * ?X / ?W"
    unfolding weighted_deviation_expand
    using W by (simp add: field_simps power2_eq_square)
  with den have z: "sum_list (map (\<lambda>d. w d * (x d - ?X / ?W) ^ 2) ds) = 0" by simp
  have "\<forall>v \<in> set (map (\<lambda>d. w d * (x d - ?X / ?W) ^ 2) ds). v = 0"
    using z by (subst (asm) sum_list_nonneg_eq_0_iff) (auto simp: less_imp_le pos)
  then show ?thesis using d pos[OF d] by auto
qed

text \<open>
  So each quotient of \<^verbatim>\<open>calculateTrend\<close> and of the weighted average whose divisor is
  0 has the dividend 0: where the model writes \<open>None\<close> for it, JavaScript has
  \<^verbatim>\<open>NaN\<close>, not an infinity.
\<close>

lemma weightedAvg_zero_divisor:
  assumes "(\<Sum>d\<leftarrow>series. exp (- (c - real_of_int (year d)) / 3)) = 0"
  shows "series = []" and "(\<Sum>d\<leftarrow>series. val d * exp (- (c - real_of_int (year d)) / 3)) = 0"
proof -
  show "series = []"
  proof (rule ccontr)
    assume "series \<noteq> []"
    then have "0 < (\<Sum>d\<leftarrow>series. exp (- (c - real_of_int (year d)) / 3))"
      by (intro weights_sum_pos) simp_all
    with assms show False by simp
  qed
  then show "(\<Sum>d\<leftarrow>series. val d * exp (- (c - real_of_int (year d)) / 3)) = 0" by simp
qed

section \<open>The trend line\<close>

text \<open>
  With at least ten points in more than one year, the slope and intercept that
  \<^verbatim>\<open>calculateTrend\<close> returns are those of the weighted least-squares line, rounded to four
  and two decimals; on points that lie on a line they are the line's.
\<close>

lemma weighted_product_expand:
  fixes w x y :: "'a \<Rightarrow> real"
  shows "(\<Sum>d\<leftarrow>ds. w d * (x d - m) * (y d - n)) =
         (\<Sum>d\<leftarrow>ds. w d * x d * y d) - n * (\<Sum>d\<leftarrow>ds. w d * x d) - m * (\<Sum>d\<leftarrow>ds. w d * y d)
         + m * n * (\<Sum>d\<leftarrow>ds. w d)"
  by (induction ds) (simp_all add: algebra_simps)

lemma calculateTrend_least_squares:
  assumes len: "10 \<le> length ds" and d1: "d1 \<in> set ds" and d2: "d2 \<in> set ds"
    and diff: "year d1 \<noteq> year d2"
  shows "slope (calculateTrend ds cy) =
           Some (toFixed 4 (leastSquaresSlope (decayWeight 5 cy) (\<lambda>d. real_of_int (year d)) val ds))"
    and "intercept (calculateTrend ds cy) =
           Some (toFixed 2 (leastSquaresIntercept (decayWeight 5 cy) (\<lambda>d. real_of_int (year d)) val ds))"
proof -
  define w where "w = decayWeight 5 cy"
  define x where "x = (\<lambda>d::ObservationPoint. real_of_int (year d))"
  define W where "W = (\<Sum>d\<leftarrow>ds. w d)"
  define X where "X = (\<Sum>d\<leftarrow>ds. w d * x d)"
  define Y where "Y = (\<Sum>d\<leftarrow>ds. w d * val d)"
  define XY where "XY = (\<Sum>d\<leftarrow>ds. w d * x d * val d)"
  define XX where "XX = (\<Sum>d\<leftarrow>ds. w d * x d * x d)"
  have ne: "ds \<noteq> []" using len by auto
  have pos: "\<And>d. d \<in> set ds \<Longrightarrow> 0 < w d" by (simp add: w_def decayWeight_def)
  have W: "0 < W" unfolding W_def using pos ne by (rule weights_sum_pos)
  have den: "XX - X * X / W \<noteq> 0"
  proof
    assume z: "XX - X * X / W = 0"
    have "x d1 = X / W" "x d2 = X / W"
      using weighted_variance_zero[of ds w x, OF pos ne z[unfolded XX_def X_def W_def]] d1 d2
      unfolding X_def W_def by blast+
    with diff show False by (simp add: x_def)
  qed
  have mx: "weightedMean w x ds = X / W" and my: "weightedMean w val ds = Y / W"
    by (simp_all add: weightedMean_def X_def Y_def W_def)
  have cov: "(\<Sum>d\<leftarrow>ds. w d * (x d - X / W) * (val d - Y / W)) = XY - X * Y / W"
    unfolding weighted_product_expand XY_def[symmetric] X_def[symmetric] Y_def[symmetric] W_def[symmetric]
    using W by (simp add: field_simps)
  have var: "(\<Sum>d\<leftarrow>ds. w d * (x d - X / W) ^ 2) = XX - X * X / W"
    unfolding weighted_deviation_expand XX_def[symmetric] X_def[symmetric] W_def[symmetric]
    using W by (simp add: field_simps power2_eq_square)
  have s: "leastSquaresSlope w x val ds = (XY - X * Y / W) / (XX - X * X / W)"
    unfolding leastSquaresSlope_def mx my cov var ..
  have i: "leastSquaresIntercept w x val ds = (Y - (XY - X * Y / W) / (XX - X * X / W) * X) / W"
    unfolding leastSquaresIntercept_def s mx my by (simp add: diff_divide_distrib)
  have sl: "slope (calculateTrend ds cy) = Some (toFixed 4 ((XY - X * Y / W) / (XX - X * X / W)))"
    using len W den
    unfolding XX_def XY_def X_def Y_def W_def x_def w_def decayWeight_def
    by (simp add: calculateTrend_def Let_def ndiv_def ntoFixed_def)
  have ic: "intercept (calculateTrend ds cy) =
        Some (toFixed 2 ((Y - (XY - X * Y / W) / (XX - X * X / W) * X) / W))"
    using len W den
    unfolding XX_def XY_def X_def Y_def W_def x_def w_def decayWeight_def
    by (simp add: calculateTrend_def Let_def ndiv_def ntoFixed_def)
  show "slope (calculateTrend ds cy) =
           Some (toFixed 4 (leastSquaresSlope (decayWeight 5 cy) (\<lambda>d. real_of_int (year d)) val ds))"
    unfolding sl s[symmetric] w_def x_def ..
  show "intercept (calculateTrend ds cy) =
           Some (toFixed 2 (leastSquaresIntercept (decayWeight 5 cy) (\<lambda>d. real_of_int (year d)) val ds))"
    unfolding ic i[symmetric] w_def x_def ..
qed

lemma weighted_linear_sums:
  fixes w x :: "'a \<Rightarrow> real"
  shows "(\<Sum>d\<leftarrow>ds. w d * (a * x d + b)) = a * (\<Sum>d\<leftarrow>ds. w d * x d) + b * (\<Sum>d\<leftarrow>ds. w d)"
    and "(\<Sum>d\<leftarrow>ds. w d * x d * (a * x d + b)) = a * (\<Sum>d\<leftarrow>ds. w d * x d * x d) + b * (\<Sum>d\<leftarrow>ds. w d * x d)"
  by (induction ds) (simp_all add: algebra_simps)

lemma trend_of_linear_series:
  assumes len: "10 \<le> length ds" and d1: "d1 \<in> set ds" and d2: "d2 \<in> set ds"
    and diff: "year d1 \<noteq> year d2"
    and line: "\<forall>d \<in> set ds. val d = a * real_of_int (year d) + b"
  shows "slope (calculateTrend ds cy) = Some (toFixed 4 a)"
    and "intercept (calculateTrend ds cy) = Some (toFixed 2 b)"
proof -
  define w where "w = (\<lambda>d::ObservationPoint. exp (- (real_of_int cy - real_of_int (year d)) / 5))"
  define x where "x = (\<lambda>d::ObservationPoint. real_of_int (year d))"
  define W where "W = (\<Sum>d\<leftarrow>ds. w d)"
  define X where "X = (\<Sum>d\<leftarrow>ds. w d * x d)"
  define Y where "Y = (\<Sum>d\<leftarrow>ds. w d * val d)"
  define XY where "XY = (\<Sum>d\<leftarrow>ds. w d * x d * val d)"
  define XX where "XX = (\<Sum>d\<leftarrow>ds. w d * x d * x d)"
  have ne: "ds \<noteq> []" using len by auto
  have pos: "\<And>d. d \<in> set ds \<Longrightarrow> 0 < w d" by (simp add: w_def)
  have W: "0 < W" unfolding W_def using pos ne by (rule weights_sum_pos)
  have den: "XX - X * X / W \<noteq> 0"
  proof
    assume z: "XX - X * X / W = 0"
    have "x d1 = X / W" "x d2 = X / W"
      using weighted_variance_zero[of ds w x, OF pos ne z[unfolded XX_def X_def W_def]] d1 d2
      unfolding X_def W_def by blast+
    with diff show False by (simp add: x_def)
  qed
  have "Y = (\<Sum>d\<leftarrow>ds. w d * (a * x d + b))"
    unfolding Y_def by (rule arg_cong[where f = sum_list], rule map_cong) (simp_all add: line x_def)
  then have Y: "Y = a * X + b * W"
    unfolding weighted_linear_sums X_def W_def .
  have "XY = (\<Sum>d\<leftarrow>ds. w d * x d * (a * x d + b))"
    unfolding XY_def by (rule arg_cong[where f = sum_list], rule map_cong) (simp_all add: line x_def)
  then have XY: "XY = a * XX + b * X"
    unfolding weighted_linear_sums XX_def X_def .
  have "XY - X * Y / W = a * (XX - X * X / W)"
    unfolding Y XY using W by (simp add: field_simps)
  then have s: "(XY - X * Y / W) / (XX - X * X / W) = a"
    using den by simp
  have i: "(Y - a * X) / W = b"
    unfolding Y using W by simp
  have sl: "slope (calculateTrend ds cy) = Some (toFixed 4 ((XY - X * Y / W) / (XX - X * X / W)))"
    using len W den
    unfolding XX_def XY_def X_def Y_def W_def x_def w_def
    by (simp add: calculateTrend_def Let_def ndiv_def ntoFixed_def)
  have ic: "intercept (calculateTrend ds cy) =
        Some (toFixed 2 ((Y - (XY - X * Y / W) / (XX - X * X / W) * X) / W))"
    using len W den
    unfolding XX_def XY_def X_def Y_def W_def x_def w_def
    by (simp add: calculateTrend_def Let_def ndiv_def ntoFixed_def)
  show "slope (calculateTrend ds cy) = Some (toFixed 4 a)" unfolding sl s ..
  show "intercept (calculateTrend ds cy) = Some (toFixed 2 b)" unfolding ic s i ..
qed

lemma risingSeries_facts:
  "10 \<le> length risingSeries"
  "\<lparr>year = 2015, val = 25\<rparr> \<in> set risingSeries"
  "\<lparr>year = 2016, val = 26\<rparr> \<in> set risingSeries"
  by (simp_all add: risingSeries_def)

lemma risingSeries_line: "\<forall>d \<in> set risingSeries. val d = 1 * real_of_int (year d) + (- 1990)"
  by (simp add: risingSeries_def)

lemma risingSeries_trend:
  "slope (calculateTrend risingSeries cy) = Some 1"
  "intercept (calculateTrend risingSeries cy) = Some (- 1990)"
proof -
  have diff: "year \<lparr>year = 2015, val = 25\<rparr> \<noteq> year \<lparr>year = 2016, val = 26\<rparr>" by simp
  note t = trend_of_linear_series[OF risingSeries_facts diff risingSeries_line, of cy]
  show "slope (calculateTrend risingSeries cy) = Some 1"
    using t(1) by (simp add: toFixed_def)
  show "intercept (calculateTrend risingSeries cy) = Some (- 1990)"
    using t(2) by (simp add: toFixed_def)
qed

section \<open>Thresholds\<close>

lemma risingSeries_p90: "calculatePercentile (map val risingSeries) 90 = Some 33.1"
  by (simp add: risingSeries_def calculatePercentile_def nth_num_def Let_def)

lemma threeYears_p90: "calculatePercentile [30, 31, 40] 90 = Some 38.2"
  by (simp add: calculatePercentile_def nth_num_def Let_def)

text \<open>The two-decimal rounding of the statistics moves a value by at most 0.005.\<close>

lemma toFixed_error: "\<bar>toFixed 2 x - x\<bar> \<le> 1 / 200"
proof -
  have r: "\<bar>real_of_int \<lfloor>y + 1 / 2\<rfloor> - y\<bar> \<le> 1 / 2" for y :: real
    by linarith
  show ?thesis
  proof (cases "x < 0")
    case True
    have "\<bar>toFixed 2 x - x\<bar> = \<bar>real_of_int \<lfloor>(- x) * 100 + 1 / 2\<rfloor> - (- x) * 100\<bar> / 100"
      using True by (simp add: toFixed_def field_simps abs_minus_commute)
    also have "\<dots> \<le> (1 / 2) / 100"
      by (intro divide_right_mono r) simp
    finally show ?thesis by simp
  next
    case False
    have "\<bar>toFixed 2 x - x\<bar> = \<bar>real_of_int \<lfloor>x * 100 + 1 / 2\<rfloor> - x * 100\<bar> / 100"
      using False by (simp add: toFixed_def field_simps)
    also have "\<dots> \<le> (1 / 2) / 100"
      by (intro divide_right_mono r) simp
    finally show ?thesis by simp
  qed
qed

lemma veryHot_threshold_value:
  assumes "calculateDailyProbabilities series targetMonth currentYear currentLat currentLon = Inr r"
    and "calculatePercentile (map val (T2M_MAX series)) 90 = Some p"
  shows "threshold (temperature_conditions_veryHot r) =
           map_option (\<lambda>s. max (toFixed 2 p) (35 + s * 10))
             (slope (calculateTrend (T2M_MAX series) currentYear))"
  using veryHot_fields[OF assms(1)] calculateStatistics_p90[OF assms(2)]
  by (cases "slope (calculateTrend (T2M_MAX series) currentYear)") (simp_all add: Math_max_def)

text \<open>
  Claim C6. The \<^verbatim>\<open>veryHot\<close> threshold returned is the maximum of the 90th percentile of
  the maximum-temperature series (as the statistics carry it, rounded to two decimals)
  and \<open>35 + slope 10\<close>, the slope being the one \<^verbatim>\<open>calculateTrend\<close> gives for that
  series and the response reports; it is not a number when the slope is not. So whenever
  the slope is a number \<open>\<ge> 0\<close> the threshold is a number \<open>\<ge> 35\<close>, also when the
  percentile is below 35.
\<close>

theorem veryHot_threshold:
  "\<exists>r p. calculateDailyProbabilities series targetMonth currentYear currentLat currentLon = Inr r \<and>
     calculatePercentile (map val (T2M_MAX series)) 90 = Some p \<and>
     threshold (temperature_conditions_veryHot r) =
       map_option (\<lambda>s. max (toFixed 2 p) (35 + s * 10))
         (slope (calculateTrend (T2M_MAX series) currentYear)) \<and>
     slope (trendPrediction_trend_max r) = slope (calculateTrend (T2M_MAX series) currentYear) \<and>
     (\<forall>s. slope (calculateTrend (T2M_MAX series) currentYear) = Some s \<and> 0 \<le> s \<longrightarrow>
        (\<exists>t. threshold (temperature_conditions_veryHot r) = Some t \<and> 35 \<le> t))"
proof -
  obtain r where r: "calculateDailyProbabilities series targetMonth currentYear currentLat currentLon = Inr r"
    using calculateDailyProbabilities_returns by blast
  obtain p where p: "calculatePercentile (map val (T2M_MAX series)) 90 = Some p"
    using calculatePercentile_defined[of 90 "map val (T2M_MAX series)"] by auto
  note v = veryHot_threshold_value[OF r p]
  have "\<exists>t. threshold (temperature_conditions_veryHot r) = Some t \<and> 35 \<le> t"
    if "slope (calculateTrend (T2M_MAX series) currentYear) = Some s" "0 \<le> s" for s
    using that v by simp
  with r p v veryHot_fields(2)[OF r] show ?thesis by auto
qed

theorem veryHot_threshold_witness:
  "(\<exists>r. calculateDailyProbabilities (emptySeries\<lparr>T2M_MAX := risingSeries\<rparr>) 10 2025 None None = Inr r \<and>
        calculatePercentile (map val risingSeries) 90 = Some 33.1 \<and>
        slope (calculateTrend risingSeries 2025) = Some 1 \<and> (0::real) \<le> 1 \<and>
        threshold (temperature_conditions_veryHot r) = Some 45) \<and>
   (\<exists>r. calculateDailyProbabilities
          (emptySeries\<lparr>T2M_MAX := [\<lparr>year = 2022, val = 30\<rparr>, \<lparr>year = 2023, val = 31\<rparr>, \<lparr>year = 2024, val = 40\<rparr>]\<rparr>)
          10 2025 None None = Inr r \<and>
        calculatePercentile [30, 31, 40] 90 = Some 38.2 \<and>
        slope (calculateTrend [\<lparr>year = 2022, val = 30\<rparr>, \<lparr>year = 2023, val = 31\<rparr>, \<lparr>year = 2024, val = 40\<rparr>] 2025) = Some 0 \<and>
        threshold (temperature_conditions_veryHot r) = Some 38.2)"
proof -
  let ?a = "emptySeries\<lparr>T2M_MAX := risingSeries\<rparr>"
  let ?three = "[\<lparr>year = 2022, val = 30\<rparr>, \<lparr>year = 2023, val = 31\<rparr>, \<lparr>year = 2024, val = 40::real\<rparr>]"
  let ?b = "emptySeries\<lparr>T2M_MAX := ?three\<rparr>"
  have sa: "slope (calculateTrend (T2M_MAX ?a) 2025) = Some 1"
    by (simp add: emptySeries_def risingSeries_trend)
  have pa: "calculatePercentile (map val (T2M_MAX ?a)) 90 = Some 33.1"
    by (simp add: emptySeries_def risingSeries_p90)
  have sb: "slope (calculateTrend (T2M_MAX ?b) 2025) = Some 0"
    by (simp add: emptySeries_def calculateTrend_def)
  have pb: "calculatePercentile (map val (T2M_MAX ?b)) 90 = Some 38.2"
    by (simp add: emptySeries_def threeYears_p90)
  have fa: "max (toFixed 2 33.1) (35 + 1 * 10) = (45::real)" by (simp add: toFixed_def)
  have fb: "max (toFixed 2 38.2) (35 + 0 * 10) = (38.2::real)" by (simp add: toFixed_def)
  obtain ra qa where ra: "calculateDailyProbabilities ?a 10 2025 None None = Inr ra"
    and qa: "calculatePercentile (map val (T2M_MAX ?a)) 90 = Some qa"
    and ta: "threshold (temperature_conditions_veryHot ra) =
       map_option (\<lambda>s. max (toFixed 2 qa) (35 + s * 10)) (slope (calculateTrend (T2M_MAX ?a) 2025))"
    using veryHot_threshold[of ?a 10 2025 None None] by blast
  have qa': "qa = 33.1" using qa pa by simp
  have "threshold (temperature_conditions_veryHot ra) = Some 45"
    unfolding ta sa qa' by (simp only: option.map fa)
  with ra have A: "\<exists>r. calculateDailyProbabilities ?a 10 2025 None None = Inr r \<and>
        threshold (temperature_conditions_veryHot r) = Some 45"
    by blast
  obtain rb qb where rb: "calculateDailyProbabilities ?b 10 2025 None None = Inr rb"
    and qb: "calculatePercentile (map val (T2M_MAX ?b)) 90 = Some qb"
    and tb: "threshold (temperature_conditions_veryHot rb) =
       map_option (\<lambda>s. max (toFixed 2 qb) (35 + s * 10)) (slope (calculateTrend (T2M_MAX ?b) 2025))"
    using veryHot_threshold[of ?b 10 2025 None None] by blast
  have qb': "qb = 38.2" using qb pb by simp
  have "threshold (temperature_conditions_veryHot rb) = Some 38.2"
    unfolding tb sb qb' by (simp only: option.map fb)
  with rb have B: "\<exists>r. calculateDailyProbabilities ?b 10 2025 None None = Inr r \<and>
        threshold (temperature_conditions_veryHot r) = Some 38.2"
    by blast
  from A B sa pa sb pb show ?thesis
    by (simp add: emptySeries_def)
qed

section \<open>Probabilities\<close>

lemma probHeavyRain_capped:
  "probHeavyRain rainValues thr seasonalAdj =
     min 100 (calculateRealProbability rainValues (heavyRain thr) True * precip seasonalAdj)"
  "probHeavyRain rainValues thr seasonalAdj \<le> 100"
  by (simp_all add: probHeavyRain_def)

lemma calculateRealProbability_frequency:
  assumes "vs \<noteq> []"
  shows "calculateRealProbability vs (Some t) True = 100 * real (length (filter (\<lambda>v. t < v) vs)) / real (length vs)"
  using assms by (simp add: calculateRealProbability_def nless_def)

lemma probVeryHumid_frequency:
  "probVeryHumid humidityValues thr seasonalAdj =
     calculateRealProbability humidityValues (veryHumid thr) True * humidity seasonalAdj"
  by (simp add: probVeryHumid_def)

lemma veryHumid_field:
  assumes "calculateDailyProbabilities series targetMonth currentYear currentLat currentLon = Inr r"
  shows "probability (humidity_conditions_veryHumid r) =
           toFixed 2 (calculateRealProbability (map val (RH2M series)) (Some 80) True *
                      humidity (getSeasonalAdjustments targetMonth))"
  using assms
  by (auto simp: calculateDailyProbabilities_def bindE_calculateStatistics Let_def condition_def
      thresholds_def baseThresholds_def probVeryHumid_def)

text \<open>
  Claim C1 says that the \<^verbatim>\<open>veryHumid\<close> and \<^verbatim>\<open>heavyRain\<close> probabilities are the
  exceedance frequency times the seasonal multiplier, both capped at 100. The
  \<^verbatim>\<open>veryHumid\<close> probability is not capped: one January observation of 85% humidity
  gives the frequency 100, the multiplier 1.2 and the reported probability 120.
\<close>

theorem veryHumid_probability_uncapped:
  "\<exists>r. calculateDailyProbabilities (emptySeries\<lparr>RH2M := [\<lparr>year = 2024, val = 85\<rparr>]\<rparr>) 1 2025 None None = Inr r \<and>
        probability (humidity_conditions_veryHumid r) = 120 \<and>
        \<not> probability (humidity_conditions_veryHumid r) \<le> 100"
proof -
  let ?s = "emptySeries\<lparr>RH2M := [\<lparr>year = 2024, val = 85\<rparr>]\<rparr>"
  obtain r where r: "calculateDailyProbabilities ?s 1 2025 None None = Inr r"
    using calculateDailyProbabilities_returns by blast
  have "probability (humidity_conditions_veryHumid r) = 120"
    unfolding veryHumid_field[OF r]
    by (simp add: emptySeries_def calculateRealProbability_def nless_def getSeasonalAdjustments_def
        toFixed_def)
  with r show ?thesis by auto
qed

section \<open>Calibration override\<close>

lemma distance_bounds_coordinates:
  assumes "sqrt ((a::real) ^ 2 + b ^ 2) \<le> r"
  shows "\<bar>a\<bar> \<le> r" "\<bar>b\<bar> \<le> r"
proof -
  have "\<bar>a\<bar> = sqrt (a ^ 2)" by simp
  also have "\<dots> \<le> sqrt (a ^ 2 + b ^ 2)" by (rule real_sqrt_le_mono) simp
  finally show "\<bar>a\<bar> \<le> r" using assms by (rule order_trans)
  have "\<bar>b\<bar> = sqrt (b ^ 2)" by simp
  also have "\<dots> \<le> sqrt (a ^ 2 + b ^ 2)" by (rule real_sqrt_le_mono) simp
  finally show "\<bar>b\<bar> \<le> r" using assms by (rule order_trans)
qed

lemma far_in_longitude:
  assumes "r < \<bar>b\<bar>"
  shows "\<not> sqrt ((a::real) ^ 2 + b ^ 2) \<le> r"
  using distance_bounds_coordinates(2)[of a b r] assms by auto

lemma findCalibration_entry:
  assumes "(key, cal) \<in> set calibrationDatabase"
    and "sqrt ((la - lat cal) ^ 2 + (lo - lon cal) ^ 2) \<le> radius cal"
  shows "findCalibration (Some la) (Some lo) (month cal) = Some cal"
proof -
  consider
      (co) "cal = \<lparr>lat = - 17.39, lon = - 66.16, month = 10, tempMax = 26.0, tempMin = 12.0, radius = 0.5\<rparr>"
    | (cn) "cal = \<lparr>lat = - 17.39, lon = - 66.16, month = 11, tempMax = 24.5, tempMin = 11.0, radius = 0.5\<rparr>"
    | (cd) "cal = \<lparr>lat = - 17.39, lon = - 66.16, month = 12, tempMax = 26.0, tempMin = 13.0, radius = 0.5\<rparr>"
    | (lp) "cal = \<lparr>lat = - 16.50, lon = - 68.15, month = 10, tempMax = 16.5, tempMin = 3.0, radius = 0.3\<rparr>"
    | (sc) "cal = \<lparr>lat = - 17.78, lon = - 63.18, month = 10, tempMax = 29.0, tempMin = 19.0, radius = 0.4\<rparr>"
    using assms(1) by (auto simp: calibrationDatabase_def)
  then show ?thesis
  proof cases
    case co
    with assms(2) show ?thesis
      by (simp add: findCalibration_def calibrationDatabase_def distanceTo_def nleq_def)
  next
    case cn
    with assms(2) show ?thesis
      by (simp add: findCalibration_def calibrationDatabase_def distanceTo_def nleq_def)
  next
    case cd
    with assms(2) show ?thesis
      by (simp add: findCalibration_def calibrationDatabase_def distanceTo_def nleq_def)
  next
    case lp
    with assms(2) have "\<bar>lo + 68.15\<bar> \<le> 0.3"
      using distance_bounds_coordinates(2)[of "la + 16.5" "lo + 68.15" "0.3"] by simp
    then have "0.5 < \<bar>lo + 66.16\<bar>" by (simp add: abs_if split: if_splits)
    then have "\<not> sqrt ((la + 17.39) ^ 2 + (lo + 66.16) ^ 2) \<le> 0.5"
      by (rule far_in_longitude)
    with lp assms(2) show ?thesis
      by (simp add: findCalibration_def calibrationDatabase_def distanceTo_def nleq_def)
  next
    case sc
    with assms(2) have "\<bar>lo + 63.18\<bar> \<le> 0.4"
      using distance_bounds_coordinates(2)[of "la + 17.78" "lo + 63.18" "0.4"] by simp
    then have far: "0.5 < \<bar>lo + 66.16\<bar>" "0.3 < \<bar>lo + 68.15\<bar>"
      by (simp_all add: abs_if split: if_splits)
    have "\<not> sqrt ((la + 17.39) ^ 2 + (lo + 66.16) ^ 2) \<le> 0.5"
      using far(1) by (rule far_in_longitude)
    moreover have "\<not> sqrt ((la + 16.5) ^ 2 + (lo + 68.15) ^ 2) \<le> 0.3"
      using far(2) by (rule far_in_longitude)
    ultimately have "\<not> sqrt ((la + 17.39) ^ 2 + (lo + 66.16) ^ 2) \<le> 0.5"
      "\<not> sqrt ((la + 16.5) ^ 2 + (lo + 68.15) ^ 2) \<le> 0.3"
      by simp_all
    with sc assms(2) show ?thesis
      by (simp add: findCalibration_def calibrationDatabase_def distanceTo_def nleq_def)
  qed
qed

lemma calibration_temperatures_fixed:
  assumes "(key, cal) \<in> set calibrationDatabase"
  shows "toFixed 2 (tempMax cal) = tempMax cal" "toFixed 2 (tempMin cal) = tempMin cal"
  using assms by (auto simp: calibrationDatabase_def toFixed_def)

lemma prediction_fields:
  assumes "calculateDailyProbabilities series targetMonth currentYear currentLat currentLon = Inr r"
  shows "trendPrediction_tempMax r =
           ntoFixed 2 (fst (predictedTemperatures series
             (projr (calculateStatistics (map val (T2M_MAX series)) False))
             (projr (calculateStatistics (map val (T2M_MIN series)) False))
             targetMonth currentYear currentLat currentLon))"
    and "trendPrediction_tempMin r =
           ntoFixed 2 (snd (predictedTemperatures series
             (projr (calculateStatistics (map val (T2M_MAX series)) False))
             (projr (calculateStatistics (map val (T2M_MIN series)) False))
             targetMonth currentYear currentLat currentLon))"
  using assms
  by (auto simp: calculateDailyProbabilities_def bindE_calculateStatistics Let_def)

text \<open>
  Claim C3. When the request's point is within the radius (Euclidean, in degrees) of an
  entry of the calibration table and its month is the entry's, the predicted maximum and
  minimum temperatures are the entry's, both as computed and as returned: no blend and
  no seasonal offset enter.
\<close>

theorem calibration_override:
  assumes "(key, cal) \<in> set calibrationDatabase"
    and "currentLat = Some la" and "currentLon = Some lo"
    and "sqrt ((la - lat cal) ^ 2 + (lo - lon cal) ^ 2) \<le> radius cal"
    and "targetMonth = month cal"
  shows "predictedTemperatures series tempMaxStats tempMinStats targetMonth currentYear currentLat currentLon =
           (Some (tempMax cal), Some (tempMin cal)) \<and>
         (\<exists>r. calculateDailyProbabilities series targetMonth currentYear currentLat currentLon = Inr r \<and>
               trendPrediction_tempMax r = Some (tempMax cal) \<and>
               trendPrediction_tempMin r = Some (tempMin cal))"
proof -
  have c: "findCalibration currentLat currentLon targetMonth = Some cal"
    using findCalibration_entry[OF assms(1,4)] assms(2,3,5) by simp
  have p: "predictedTemperatures series a b targetMonth currentYear currentLat currentLon =
        (Some (tempMax cal), Some (tempMin cal))" for a b
    by (simp add: predictedTemperatures_def c Let_def)
  obtain r where r: "calculateDailyProbabilities series targetMonth currentYear currentLat currentLon = Inr r"
    using calculateDailyProbabilities_returns by blast
  have "trendPrediction_tempMax r = Some (tempMax cal)" "trendPrediction_tempMin r = Some (tempMin cal)"
    using prediction_fields[OF r] calibration_temperatures_fixed[OF assms(1)]
    by (simp_all add: p ntoFixed_def)
  with p r show ?thesis by blast
qed

theorem calibration_override_witness:
  "(''cochabamba_oct'', \<lparr>lat = - 17.39, lon = - 66.16, month = 10, tempMax = 26.0, tempMin = 12.0, radius = 0.5\<rparr>)
      \<in> set calibrationDatabase \<and>
   sqrt ((- 17.39 - (- 17.39)) ^ 2 + (- 66.16 - (- 66.16)) ^ 2) \<le> (0.5::real) \<and>
   predictedTemperatures emptySeries (projr (calculateStatistics [] False))
       (projr (calculateStatistics [] False)) 10 2025 (Some (- 17.39)) (Some (- 66.16)) =
     (Some 26, Some 12) \<and>
   (\<exists>r. calculateDailyProbabilities emptySeries 10 2025 (Some (- 17.39)) (Some (- 66.16)) = Inr r \<and>
        trendPrediction_tempMax r = Some 26 \<and> trendPrediction_tempMin r = Some 12)"
proof -
  let ?cal = "\<lparr>lat = - 17.39, lon = - 66.16, month = 10, tempMax = 26.0, tempMin = 12.0, radius = 0.5\<rparr>"
  have m: "(''cochabamba_oct'', ?cal) \<in> set calibrationDatabase"
    by (simp add: calibrationDatabase_def)
  have d: "sqrt ((- 17.39 - lat ?cal) ^ 2 + (- 66.16 - lon ?cal) ^ 2) \<le> radius ?cal"
    by simp
  have mo: "(10::int) = month ?cal" by simp
  from calibration_override[OF m refl refl d mo, of emptySeries "projr (calculateStatistics [] False)"
      "projr (calculateStatistics [] False)" 2025] m
  show ?thesis by simp
qed

section \<open>The hybrid prediction\<close>

lemma ndiv_scale: "k \<noteq> 0 \<Longrightarrow> ndiv (k * a) (k * b) = ndiv a b"
  by (simp add: ndiv_def)

lemma weightedAvg_weightedMean:
  assumes "series \<noteq> []"
  shows "weightedAvg series (real_of_int currentYear + delta) =
           Some (weightedMean (decayWeight 3 currentYear) val series)"
proof -
  let ?k = "exp (- delta / 3)"
  let ?w = "decayWeight 3 currentYear"
  have w: "exp (- (real_of_int currentYear + delta - real_of_int (year d)) / 3) = ?k * ?w d" for d
    by (simp add: decayWeight_def exp_add[symmetric] field_simps)
  have n: "(\<Sum>d\<leftarrow>series. val d * exp (- (real_of_int currentYear + delta - real_of_int (year d)) / 3))
        = ?k * (\<Sum>d\<leftarrow>series. ?w d * val d)"
    unfolding w sum_list_const_mult[symmetric] by (simp add: mult_ac)
  have d: "(\<Sum>d\<leftarrow>series. exp (- (real_of_int currentYear + delta - real_of_int (year d)) / 3))
        = ?k * (\<Sum>d\<leftarrow>series. ?w d)"
    unfolding w sum_list_const_mult[symmetric] by simp
  have "0 < (\<Sum>d\<leftarrow>series. ?w d)"
    using assms by (intro weights_sum_pos) (simp_all add: decayWeight_def)
  then have "ndiv (\<Sum>d\<leftarrow>series. ?w d * val d) (\<Sum>d\<leftarrow>series. ?w d) = Some (weightedMean ?w val series)"
    by (simp add: ndiv_def weightedMean_def)
  then show ?thesis
    unfolding weightedAvg_def Let_def n d
    by (simp only: ndiv_scale[of ?k] exp_not_eq_zero not_False_eq_True)
qed

lemma weightedAvg_defined:
  assumes "series \<noteq> []"
  shows "\<exists>a. weightedAvg series currentYearFloat = Some a"
proof -
  have "0 < (\<Sum>d\<leftarrow>series. exp (- (currentYearFloat - real_of_int (year d)) / 3))"
    using assms by (intro weights_sum_pos) simp_all
  then show ?thesis by (simp add: weightedAvg_def ndiv_def Let_def)
qed

text \<open>
  With at least ten points in more than one year and no calibration entry, the predicted
  maximum temperature is the blend: 0.40 times the weighted mean with decay 3 years (the
  month fraction of the code's weights cancels), 0.35 times the rounded least-squares line
  at the current year, 0.25 times the 60th percentile of the observations from the years
  \<open>currentYear - 3\<close> on (the rounded median when there are none), plus the seasonal
  offset.
\<close>

lemma hybrid_prediction_value:
  assumes n: "findCalibration currentLat currentLon targetMonth = None"
    and len: "10 \<le> length (T2M_MAX series)"
    and d1: "d1 \<in> set (T2M_MAX series)" and d2: "d2 \<in> set (T2M_MAX series)"
    and diff: "year d1 \<noteq> year d2"
  shows "\<exists>p. (if length (map val (filter (\<lambda>d. year d \<ge> currentYear - 3) (T2M_MAX series))) > 0
               then calculatePercentile (map val (filter (\<lambda>d. year d \<ge> currentYear - 3) (T2M_MAX series))) 60
               else ntoFixed 2 (calculatePercentile (map val (T2M_MAX series)) 50)) = Some p \<and>
          fst (predictedTemperatures series (projr (calculateStatistics (map val (T2M_MAX series)) False)) b
                 targetMonth currentYear currentLat currentLon) =
            Some (0.40 * weightedMean (decayWeight 3 currentYear) val (T2M_MAX series)
                  + 0.35 * (toFixed 4 (leastSquaresSlope (decayWeight 5 currentYear)
                                         (\<lambda>d. real_of_int (year d)) val (T2M_MAX series))
                              * real_of_int currentYear
                            + toFixed 2 (leastSquaresIntercept (decayWeight 5 currentYear)
                                           (\<lambda>d. real_of_int (year d)) val (T2M_MAX series)))
                  + 0.25 * p
                  + temp (getSeasonalAdjustments targetMonth))"
proof -
  let ?S = "T2M_MAX series"
  let ?recent = "map val (filter (\<lambda>d. year d \<ge> currentYear - 3) ?S)"
  have ne: "?S \<noteq> []" using len by auto
  have vne: "map val ?S \<noteq> []" using ne by simp
  have p50: "p50 (percentiles (projr (calculateStatistics (map val ?S) False))) =
        ntoFixed 2 (calculatePercentile (map val ?S) 50)"
    using vne by (simp add: calculateStatistics_def Let_def)
  have "\<exists>p. (if length ?recent > 0 then calculatePercentile ?recent 60
               else ntoFixed 2 (calculatePercentile (map val ?S) 50)) = Some p"
  proof (cases "length ?recent > 0")
    case True
    then show ?thesis using calculatePercentile_defined[of 60 ?recent] by simp
  next
    case False
    obtain m where "calculatePercentile (map val ?S) 50 = Some m"
      using calculatePercentile_defined[of 50 "map val ?S"] by auto
    with False show ?thesis by (simp add: ntoFixed_def)
  qed
  then obtain p where p: "(if length ?recent > 0 then calculatePercentile ?recent 60
               else ntoFixed 2 (calculatePercentile (map val ?S) 50)) = Some p"
    by blast
  have "fst (predictedTemperatures series (projr (calculateStatistics (map val ?S) False)) b
                 targetMonth currentYear currentLat currentLon) =
        hybridPrediction ?S (calculateTrend ?S currentYear) (projr (calculateStatistics (map val ?S) False))
          (weightedAvg ?S (real_of_int currentYear + (real_of_int targetMonth - 1) / 12)) currentYear
          (getSeasonalAdjustments targetMonth)"
    by (simp add: predictedTemperatures_def n Let_def)
  also have "\<dots> = Some (0.40 * weightedMean (decayWeight 3 currentYear) val ?S
                  + 0.35 * (toFixed 4 (leastSquaresSlope (decayWeight 5 currentYear)
                                         (\<lambda>d. real_of_int (year d)) val ?S)
                              * real_of_int currentYear
                            + toFixed 2 (leastSquaresIntercept (decayWeight 5 currentYear)
                                           (\<lambda>d. real_of_int (year d)) val ?S))
                  + 0.25 * p
                  + temp (getSeasonalAdjustments targetMonth))"
    unfolding hybridPrediction_def Let_def weightedAvg_weightedMean[OF ne]
      calculateTrend_least_squares[OF len d1 d2 diff] p50
    using p by (simp add: algebra_simps)
  finally show ?thesis using p by blast
qed

text \<open>
  With fewer than ten points the object \<^verbatim>\<open>calculateTrend\<close> returns has no intercept, the
  trend value is \<^verbatim>\<open>0 * currentYear + undefined\<close> and the prediction is not a number.
\<close>

lemma hybridPrediction_short_series:
  assumes "length series < 10"
  shows "hybridPrediction series (calculateTrend series currentYear) stats weightedAverage currentYear
           seasonalAdj = None"
  using assms by (simp add: hybridPrediction_def calculateTrend_def Let_def split: Option.bind_splits)

lemma prediction_undefined_on_short_series:
  assumes "findCalibration currentLat currentLon targetMonth = None"
  shows "length (T2M_MAX series) < 10 \<Longrightarrow>
           fst (predictedTemperatures series a b targetMonth currentYear currentLat currentLon) = None"
    and "length (T2M_MIN series) < 10 \<Longrightarrow>
           snd (predictedTemperatures series a b targetMonth currentYear currentLat currentLon) = None"
  using assms by (simp_all add: predictedTemperatures_def Let_def hybridPrediction_short_series)

lemma no_calibration_in_february: "findCalibration currentLat currentLon 2 = None"
  by (simp add: findCalibration_def calibrationDatabase_def)

text \<open>
  Claim C4 says that without a calibration entry the predicted maximum and minimum
  temperatures are 0.40 times the weighted average plus 0.35 times the trend value plus
  0.25 times the recent 60th percentile plus the seasonal offset. On a request for 29
  February (Mexico City, current year 2025) the series have eight points: the weighted
  average and the percentile are numbers, the trend has slope 0 and no intercept, and the
  predicted maximum and minimum returned are not numbers.
\<close>

theorem hybrid_prediction_undefined_on_leap_day:
  "findCalibration (Some 19.4326) (Some (- 99.1332)) 2 = None \<and>
   (\<exists>r a p. calculateDailyProbabilities leapDaySeries 2 2025 (Some 19.4326) (Some (- 99.1332)) = Inr r \<and>
      weightedAvg (T2M_MAX leapDaySeries) (2025 + (2 - 1) / 12) = Some a \<and>
      calculatePercentile (map val (filter (\<lambda>d. year d \<ge> 2025 - 3) (T2M_MAX leapDaySeries))) 60 = Some p \<and>
      slope (calculateTrend (T2M_MAX leapDaySeries) 2025) = Some 0 \<and>
      intercept (calculateTrend (T2M_MAX leapDaySeries) 2025) = None \<and>
      trendPrediction_tempMax r = None \<and>
      trendPrediction_tempMin r = None)"
proof -
  let ?s = leapDaySeries
  have n: "findCalibration (Some 19.4326) (Some (- 99.1332)) 2 = None"
    by (rule no_calibration_in_february)
  obtain r where r: "calculateDailyProbabilities ?s 2 2025 (Some 19.4326) (Some (- 99.1332)) = Inr r"
    using calculateDailyProbabilities_returns by blast
  have l: "length (T2M_MAX ?s) < 10" "length (T2M_MIN ?s) < 10" "T2M_MAX ?s \<noteq> []"
    by (simp_all add: leapDaySeries_def emptySeries_def)
  obtain a where a: "weightedAvg (T2M_MAX ?s) (2025 + (2 - 1) / 12) = Some a"
    using weightedAvg_defined[OF l(3)] by blast
  have p: "calculatePercentile (map val (filter (\<lambda>d. year d \<ge> 2025 - 3) (T2M_MAX ?s))) 60 = Some 27"
    by (simp add: leapDaySeries_def emptySeries_def calculatePercentile_def nth_num_def)
  have t: "slope (calculateTrend (T2M_MAX ?s) 2025) = Some 0"
    "intercept (calculateTrend (T2M_MAX ?s) 2025) = None"
    using l(1) by (simp_all add: calculateTrend_def)
  have "trendPrediction_tempMax r = None" "trendPrediction_tempMin r = None"
    using prediction_fields[OF r] prediction_undefined_on_short_series[OF n] l(1,2)
    by (simp_all add: ntoFixed_def)
  with n r a p t show ?thesis by blast
qed

section \<open>Risk scores\<close>

text \<open>
  Each formula caps its score at 100 and has no clamp at 0: a score is at least 0 when
  the operands it adds are.
\<close>

lemma riskScores_bounds:
  "frostRisk tMin h w \<le> 100 \<and> stormRisk p wm h \<le> 100 \<and> heatStressRisk tMax h w \<le> 100 \<and>
   (0 \<le> h \<longrightarrow> 0 \<le> frostRisk tMin h w \<and> 0 \<le> heatStressRisk tMax h w) \<and>
   (0 \<le> h \<and> 0 \<le> wm \<and> 0 \<le> p \<longrightarrow> 0 \<le> stormRisk p wm h)"
  by (auto simp: frostRisk_def stormRisk_def heatStressRisk_def frostRiskRaw_def stormRiskRaw_def
      heatStressRiskRaw_def intro!: add_nonneg_nonneg mult_nonneg_nonneg)

text \<open>
  In the returned object each score is the formula's value rounded to one decimal, so a
  score that is a number is at most 100.
\<close>

lemma toFixed_at_most_100:
  assumes "x \<le> 100"
  shows "toFixed 1 x \<le> 100"
proof (cases "x < 0")
  case True
  then have "0 \<le> 1 / 2 - x * 10" by simp
  then have "0 \<le> \<lfloor>1 / 2 - x * 10\<rfloor>" by (simp only: zero_le_floor)
  then have "0 \<le> real_of_int \<lfloor>1 / 2 - x * 10\<rfloor> / 10" by simp
  moreover have "toFixed 1 x = - (real_of_int \<lfloor>1 / 2 - x * 10\<rfloor> / 10)"
    using True by (simp add: toFixed_def)
  ultimately show ?thesis by linarith
next
  case False
  have "x * 10 + 1 / 2 < 1001" using assms by simp
  then have "\<lfloor>x * 10 + 1 / 2\<rfloor> < 1001" by (simp add: floor_less_iff)
  then have "real_of_int \<lfloor>x * 10 + 1 / 2\<rfloor> \<le> 1000" by linarith
  then show ?thesis using False by (simp add: toFixed_def)
qed

lemma ntoFixed_at_most_100:
  assumes "ntoFixed 1 v = Some s" and "\<And>x. v = Some x \<Longrightarrow> x \<le> 100"
  shows "s \<le> 100"
proof (cases v)
  case None
  with assms(1) show ?thesis by (simp add: ntoFixed_def)
next
  case (Some a)
  with assms(2) have "a \<le> 100" by simp
  then have "toFixed 1 a \<le> 100" by (rule toFixed_at_most_100)
  moreover have "s = toFixed 1 a" using assms(1) Some by (simp add: ntoFixed_def del: One_nat_def)
  ultimately show ?thesis by simp
qed

lemma riskScore_fields:
  assumes "calculateDailyProbabilities series targetMonth currentYear currentLat currentLon = Inr r"
  shows "score (riskScores_frost r) =
           ntoFixed 1 (do {
             t \<leftarrow> snd (predictedTemperatures series
                    (projr (calculateStatistics (map val (T2M_MAX series)) False))
                    (projr (calculateStatistics (map val (T2M_MIN series)) False))
                    targetMonth currentYear currentLat currentLon);
             h \<leftarrow> mean (projr (calculateStatistics (map val (RH2M series)) False));
             w \<leftarrow> mean (projr (calculateStatistics (map val (WS2M series)) False));
             Some (frostRisk t h w) })"
    and "score (riskScores_storm r) =
           ntoFixed 1 (do {
             w \<leftarrow> mean (projr (calculateStatistics (map val (WS2M_MAX series)) False));
             h \<leftarrow> mean (projr (calculateStatistics (map val (RH2M series)) False));
             Some (stormRisk
               (probHeavyRain (map val (PRECTOTCORR series))
                  (thresholds (projr (calculateStatistics (map val (T2M_MAX series)) False))
                     (projr (calculateStatistics (map val (T2M_MIN series)) False))
                     (projr (calculateStatistics (map val (WS2M_MAX series)) False))
                     (projr (calculateStatistics (map val (PRECTOTCORR series)) False))
                     (calculateTrend (T2M_MAX series) currentYear)
                     (calculateTrend (T2M_MIN series) currentYear))
                  (getSeasonalAdjustments targetMonth))
               w h) })"
    and "score (riskScores_heatStress r) =
           ntoFixed 1 (do {
             t \<leftarrow> fst (predictedTemperatures series
                    (projr (calculateStatistics (map val (T2M_MAX series)) False))
                    (projr (calculateStatistics (map val (T2M_MIN series)) False))
                    targetMonth currentYear currentLat currentLon);
             h \<leftarrow> mean (projr (calculateStatistics (map val (RH2M series)) False));
             w \<leftarrow> mean (projr (calculateStatistics (map val (WS2M series)) False));
             Some (heatStressRisk t h w) })"
  using assms
  by (auto simp: calculateDailyProbabilities_def bindE_calculateStatistics Let_def)

lemma returned_riskScores_at_most_100:
  assumes r: "calculateDailyProbabilities series targetMonth currentYear currentLat currentLon = Inr r"
  shows "score (riskScores_frost r) = Some s \<Longrightarrow> s \<le> 100"
    and "score (riskScores_storm r) = Some s \<Longrightarrow> s \<le> 100"
    and "score (riskScores_heatStress r) = Some s \<Longrightarrow> s \<le> 100"
proof -
  show "score (riskScores_frost r) = Some s \<Longrightarrow> s \<le> 100"
    unfolding riskScore_fields(1)[OF r]
    by (erule ntoFixed_at_most_100) (auto simp: frostRisk_def split: Option.bind_splits)
  show "score (riskScores_storm r) = Some s \<Longrightarrow> s \<le> 100"
    unfolding riskScore_fields(2)[OF r]
    by (erule ntoFixed_at_most_100) (auto simp: stormRisk_def split: Option.bind_splits)
  show "score (riskScores_heatStress r) = Some s \<Longrightarrow> s \<le> 100"
    unfolding riskScore_fields(3)[OF r]
    by (erule ntoFixed_at_most_100) (auto simp: heatStressRisk_def split: Option.bind_splits)
qed

lemma cochabamba_october:
  "predictedTemperatures series a b 10 currentYear (Some (- 17.39)) (Some (- 66.16)) = (Some 26, Some 12)"
  by (simp add: predictedTemperatures_def findCalibration_def calibrationDatabase_def distanceTo_def
      nleq_def Let_def)

text \<open>
  Claim C2 says that each of the three risk scores lies in \<open>[0, 100]\<close>, clamped at both
  ends, also for negative humidity. On a request for 4 October at Cochabamba (predicted
  minimum 12, maximum 26 from the calibration entry) with a humidity of \<open>-100\<close> and a mean
  wind of 10, the scores returned are \<open>-30\<close> for frost, \<open>-20\<close> for storm and \<open>-30\<close> for
  heat stress.
\<close>

theorem riskScores_negative:
  "\<exists>r. calculateDailyProbabilities negativeHumiditySeries 10 2025 (Some (- 17.39)) (Some (- 66.16)) = Inr r \<and>
       score (riskScores_frost r) = Some (- 30) \<and>
       score (riskScores_storm r) = Some (- 20) \<and>
       score (riskScores_heatStress r) = Some (- 30)"
proof -
  let ?s = negativeHumiditySeries
  obtain r where r: "calculateDailyProbabilities ?s 10 2025 (Some (- 17.39)) (Some (- 66.16)) = Inr r"
    using calculateDailyProbabilities_returns by blast
  have h: "mean (projr (calculateStatistics (map val (RH2M ?s)) False)) = Some (- 100)"
    by (simp add: negativeHumiditySeries_def emptySeries_def calculateStatistics_mean toFixed_def)
  have w: "mean (projr (calculateStatistics (map val (WS2M ?s)) False)) = Some 10"
    by (simp add: negativeHumiditySeries_def emptySeries_def calculateStatistics_mean toFixed_def)
  have wm: "mean (projr (calculateStatistics (map val (WS2M_MAX ?s)) False)) = Some 0"
    by (simp add: negativeHumiditySeries_def emptySeries_def calculateStatistics_mean_empty)
  have rain: "probHeavyRain (map val (PRECTOTCORR ?s)) thr adj = 0" for thr adj
    by (simp add: negativeHumiditySeries_def emptySeries_def probHeavyRain_def calculateRealProbability_def)
  have "score (riskScores_frost r) = Some (- 30)"
    unfolding riskScore_fields(1)[OF r] cochabamba_october h w
    by (simp add: frostRisk_def frostRiskRaw_def ntoFixed_def toFixed_def)
  moreover have "score (riskScores_storm r) = Some (- 20)"
    unfolding riskScore_fields(2)[OF r] wm h rain
    by (simp add: stormRisk_def stormRiskRaw_def ntoFixed_def toFixed_def)
  moreover have "score (riskScores_heatStress r) = Some (- 30)"
    unfolding riskScore_fields(3)[OF r] cochabamba_october h w
    by (simp add: heatStressRisk_def heatStressRiskRaw_def ntoFixed_def toFixed_def)
  ultimately show ?thesis using r by blast
qed

text \<open>
  On a series of fewer than ten points without a calibration entry the frost and
  heat-stress scores are not numbers, as the predicted temperatures are not.
\<close>

lemma riskScores_undefined_on_short_series:
  assumes r: "calculateDailyProbabilities series targetMonth currentYear currentLat currentLon = Inr r"
    and n: "findCalibration currentLat currentLon targetMonth = None"
  shows "length (T2M_MIN series) < 10 \<Longrightarrow> score (riskScores_frost r) = None"
    and "length (T2M_MAX series) < 10 \<Longrightarrow> score (riskScores_heatStress r) = None"
  unfolding riskScore_fields[OF r]
  by (simp_all add: prediction_undefined_on_short_series[OF n] ntoFixed_def)

section \<open>The coefficient of determination\<close>

lemma sum_list_map_zero:
  assumes "\<forall>d \<in> set ds. f d = (0::real)"
  shows "(\<Sum>d\<leftarrow>ds. f d) = 0"
  using assms by (induction ds) auto

lemma rSquared_of_zero_series:
  assumes "\<forall>d \<in> set ds. val d = 0" and "10 \<le> length ds"
  shows "rSquared (calculateTrend ds y) = None"
proof -
  have z: "(\<Sum>d\<leftarrow>ds. w d * (val d) ^ 2) = 0" for w :: "ObservationPoint \<Rightarrow> real"
    using assms(1) by (intro sum_list_map_zero) simp
  have y0: "(\<Sum>d\<leftarrow>ds. w d * val d) = 0" for w :: "ObservationPoint \<Rightarrow> real"
    using assms(1) by (intro sum_list_map_zero) simp
  show ?thesis
    using assms(2)
    by (simp add: calculateTrend_def Let_def y0 ndiv_def z ntoFixed_def bind_eq_None_conv
        split: Option.bind_splits)
qed

lemma slope_of_short_series:
  assumes "length ds < 10"
  shows "slope (calculateTrend ds y) = Some 0 \<and> confidence (calculateTrend ds y) = ''low'' \<and>
         regressionMethod (calculateTrend ds y) = ''insufficient_data''"
  using assms by (simp add: calculateTrend_def)

lemma toFixed_unit_interval:
  assumes "0 \<le> x" "x \<le> 1"
  shows "0 \<le> toFixed 3 x" "toFixed 3 x \<le> 1"
proof -
  have "0 \<le> \<lfloor>x * 1000 + 1 / 2\<rfloor>" using assms(1) by simp
  then show "0 \<le> toFixed 3 x" using assms(1) by (simp add: toFixed_def)
  have "x * 1000 + 1 / 2 < 1001" using assms(2) by simp
  then have "\<lfloor>x * 1000 + 1 / 2\<rfloor> < 1001" by (simp add: floor_less_iff)
  then have "\<lfloor>x * 1000 + 1 / 2\<rfloor> \<le> 1000" by simp
  then have "real_of_int \<lfloor>x * 1000 + 1 / 2\<rfloor> \<le> 1000" by linarith
  then show "toFixed 3 x \<le> 1" using assms(1) by (simp add: toFixed_def)
qed

text \<open>
  With at least ten points, an \<^verbatim>\<open>rSquared\<close> that is a number lies in \<open>[0, 1]\<close>.
\<close>

lemma rSquared_in_unit_interval:
  assumes len: "10 \<le> length ds" and r: "rSquared (calculateTrend ds cy) = Some r"
  shows "0 \<le> r \<and> r \<le> 1"
proof -
  define w where "w = (\<lambda>d::ObservationPoint. exp (- (real_of_int cy - real_of_int (year d)) / 5))"
  define x where "x = (\<lambda>d::ObservationPoint. real_of_int (year d))"
  define W where "W = (\<Sum>d\<leftarrow>ds. w d)"
  define X where "X = (\<Sum>d\<leftarrow>ds. w d * x d)"
  define Y where "Y = (\<Sum>d\<leftarrow>ds. w d * val d)"
  define XY where "XY = (\<Sum>d\<leftarrow>ds. w d * x d * val d)"
  define XX where "XX = (\<Sum>d\<leftarrow>ds. w d * x d * x d)"
  define s where "s = (XY - X * Y / W) / (XX - X * X / W)"
  define i where "i = (Y - s * X) / W"
  define T where "T = (\<Sum>d\<leftarrow>ds. w d * (val d - Y / W) ^ 2)"
  define R where "R = (\<Sum>d\<leftarrow>ds. w d * (val d - (s * x d + i)) ^ 2)"
  have ne: "ds \<noteq> []" using len by auto
  have pos: "\<And>d. d \<in> set ds \<Longrightarrow> 0 < w d" by (simp add: w_def)
  have W: "0 < W" unfolding W_def using pos ne by (rule weights_sum_pos)
  have eq: "rSquared (calculateTrend ds cy) =
        (if XX - X * X / W = 0 then None else if T = 0 then None else Some (toFixed 3 (1 - R / T)))"
    using len W
    unfolding T_def R_def i_def s_def XX_def XY_def X_def Y_def W_def x_def w_def
    by (simp add: calculateTrend_def Let_def ndiv_def ntoFixed_def)
  from r eq have den: "XX - X * X / W \<noteq> 0" and T0: "T \<noteq> 0" and rv: "r = toFixed 3 (1 - R / T)"
    by (auto split: if_splits)
  have b: "0 \<le> R" "R \<le> T"
    using weighted_residual_bounds[of ds w x val, OF pos ne]
      den[unfolded XX_def X_def W_def]
    unfolding R_def T_def i_def s_def XY_def XX_def X_def Y_def W_def by blast+
  with T0 have "0 < T" by simp
  with b have "0 \<le> 1 - R / T" "1 - R / T \<le> 1" by simp_all
  then show ?thesis unfolding rv using toFixed_unit_interval by blast
qed

text \<open>
  Claim C5 says that with at least 10 points the returned \<^verbatim>\<open>rSquared\<close> lies in
  \<open>[0, 1]\<close>. On ten years of the value 0 the weighted total sum of squares is 0 and
  \<^verbatim>\<open>rSquared\<close> is \<^verbatim>\<open>1 - 0/0\<close>, not a number.
\<close>

theorem rSquared_undefined_on_constant_series:
  "10 \<le> length constantSeries \<and> rSquared (calculateTrend constantSeries 2025) = None \<and>
   \<not> (\<exists>r. rSquared (calculateTrend constantSeries 2025) = Some r \<and> 0 \<le> r \<and> r \<le> 1)"
proof -
  have l: "10 \<le> length constantSeries" by (simp add: constantSeries_def)
  have v: "\<forall>d \<in> set constantSeries. val d = 0" by (simp add: constantSeries_def)
  from rSquared_of_zero_series[OF v l, of 2025] l show ?thesis by simp
qed

section \<open>The phase boundary of the hourly curve\<close>




end
